theory Spec2Isabelle
  imports Main
begin

section \<open>Errors\<close>

text \<open>
  Go errors as values. The sentinel errors of the packages \<^verbatim>\<open>license\<close> and
  \<^verbatim>\<open>database\<close> are constructors of their own; \<^verbatim>\<open>fmt.Errorf("...: %w", err)\<close> is
  \<open>Wrapped\<close>; an error reported by the SQL driver is \<open>DriverError\<close> with the text
  of its \<^verbatim>\<open>Error()\<close>; \<^verbatim>\<open>errors.New(msg)\<close> in the account service is \<open>ErrorsNew\<close>.
\<close>

datatype error =
    ErrInvalidLicenseKey
  | ErrInvalidEmail
  | ErrLicenseNotFound
  | ErrDuplicateKey
  | DriverError string
  | Wrapped string error
  | ErrorsNew string

fun Error :: "error \<Rightarrow> string" where
  "Error ErrInvalidLicenseKey = ''invalid license key format''"
| "Error ErrInvalidEmail = ''invalid email format''"
| "Error ErrLicenseNotFound = ''license not found''"
| "Error ErrDuplicateKey = ''duplicate license key''"
| "Error (DriverError msg) = msg"
| "Error (Wrapped ctx e) = ctx @ '': '' @ Error e"
| "Error (ErrorsNew msg) = msg"

section \<open>Regular expressions of the validators\<close>

text \<open>
  \<^verbatim>\<open>regexp.MatchString(pattern, s)\<close> reports whether \<open>s\<close> contains any match of the
  pattern. The two patterns of \<^verbatim>\<open>license/service.go\<close> are concatenations of the
  anchors \<^verbatim>\<open>^\<close> and \<^verbatim>\<open>$\<close> (beginning and end of the text: no multi-line flag),
  single characters, a bracket class, a class repeated \<^verbatim>\<open>{n}\<close> times and a class
  repeated \<^verbatim>\<open>+\<close>. Strings are byte strings; a class that excludes one ASCII
  character admits every other byte, and a class of ASCII ranges admits no
  byte of a multi-byte character.
\<close>

datatype cclass =
    Lit char
  | Ranges "(char \<times> char) list"
  | NotChars "char list"

fun cclass_match :: "cclass \<Rightarrow> char \<Rightarrow> bool" where
  "cclass_match (Lit a) c = (c = a)"
| "cclass_match (Ranges rs) c =
     list_ex (\<lambda>(lo, hi). (of_char lo :: nat) \<le> of_char c \<and> (of_char c :: nat) \<le> of_char hi) rs"
| "cclass_match (NotChars cs) c = (c \<notin> set cs)"

datatype rx =
    BeginText
  | EndText
  | One cclass
  | Repeat cclass nat
  | Plus cclass

text \<open>
  A matcher position is the pair of a flag (nothing of the text lies before
  the position) and the text that is still to be read. \<open>step\<close> gives every
  position one item can end at, \<open>run\<close> composes the items of a pattern, and
  \<open>MatchString\<close> tries every start position of the text.
\<close>

type_synonym pos = "bool \<times> string"

fun step :: "rx \<Rightarrow> pos \<Rightarrow> pos list" where
  "step BeginText (b, t) = (if b then [(b, t)] else [])"
| "step EndText (b, t) = (if t = [] then [(b, t)] else [])"
| "step (One c) (b, t) =
     (case t of [] \<Rightarrow> [] | x # t' \<Rightarrow> if cclass_match c x then [(False, t')] else [])"
| "step (Repeat c n) (b, t) =
     (if n \<le> length t \<and> list_all (cclass_match c) (take n t)
      then [(b \<and> n = 0, drop n t)] else [])"
| "step (Plus c) (b, t) =
     map (\<lambda>k. (False, drop k t)) [1 ..< Suc (length (takeWhile (cclass_match c) t))]"

fun run :: "rx list \<Rightarrow> pos \<Rightarrow> pos list" where
  "run [] p = [p]"
| "run (r # rs) p = concat (map (run rs) (step r p))"

definition MatchString :: "rx list \<Rightarrow> string \<Rightarrow> bool" where
  "MatchString pattern s =
     list_ex (\<lambda>k. run pattern (k = 0, drop k s) \<noteq> []) [0 ..< Suc (length s)]"

text \<open>\<^verbatim>\<open>[A-Z0-9]\<close>, \<^verbatim>\<open>[^@]\<close> and the two patterns.\<close>

definition upper_alnum :: cclass where
  "upper_alnum = Ranges [(CHR ''A'', CHR ''Z''), (CHR ''0'', CHR ''9'')]"

definition not_at :: cclass where
  "not_at = NotChars [CHR ''@'']"

text \<open>\<^verbatim>\<open>^[A-Z0-9]{4}-[A-Z0-9]{4}-[A-Z0-9]{4}-[A-Z0-9]{4}$\<close>\<close>

definition license_key_pattern :: "rx list" where
  "license_key_pattern =
     [BeginText,
      Repeat upper_alnum 4, One (Lit CHR ''-''),
      Repeat upper_alnum 4, One (Lit CHR ''-''),
      Repeat upper_alnum 4, One (Lit CHR ''-''),
      Repeat upper_alnum 4,
      EndText]"

text \<open>\<^verbatim>\<open>^[^@]+@[^@]+\.[^@]+$\<close>\<close>

definition email_pattern :: "rx list" where
  "email_pattern =
     [BeginText,
      Plus not_at, One (Lit CHR ''@''),
      Plus not_at, One (Lit CHR ''.''),
      Plus not_at,
      EndText]"

definition isValidLicenseKey :: "string \<Rightarrow> bool" where
  "isValidLicenseKey key = MatchString license_key_pattern key"

definition isValidEmail :: "string \<Rightarrow> bool" where
  "isValidEmail email = MatchString email_pattern email"

section \<open>Data model\<close>

text \<open>
  \<^verbatim>\<open>database/models.go\<close>. Instants (\<^verbatim>\<open>time.Time\<close>) are integers: nanoseconds since
  the Unix epoch. A nil pointer is \<open>None\<close>. A row of the table \<^verbatim>\<open>licenses\<close> is read
  into a \<open>License\<close> column by column (\<^verbatim>\<open>id, license_key, product, expires_at,
  owner_email, owner_name, is_activated\<close>), so the table is kept as a list of
  \<open>License\<close> values in insertion order; the columns \<^verbatim>\<open>created_at\<close> and
  \<^verbatim>\<open>updated_at\<close> are never read. Likewise a row of \<^verbatim>\<open>Accounts\<close> is an \<open>Account\<close>
  (the timestamps are the strings \<^verbatim>\<open>Scan\<close> produces).
\<close>

type_synonym time = int

record License =
  ID :: int
  Key :: string
  Product :: string
  ExpiresAt :: "time option"
  OwnerEmail :: string
  OwnerName :: string
  IsActivated :: bool

record Account =
  acc_ID :: int
  Username :: string
  Email :: string
  PasswordHash :: string
  CreatedAt :: string
  LastLogin :: "string option"
  LastLoginIP :: "string option"

text \<open>
  A row of \<^verbatim>\<open>audit_log\<close>, under its column names. \<^verbatim>\<open>details\<close> is a nullable
  \<^verbatim>\<open>TEXT\<close>: the \<^verbatim>\<open>DELETE\<close> entry is inserted without it.
\<close>

record audit_row =
  action :: string
  license_key :: string
  product :: string
  changed_at :: time
  details :: "string option"

section \<open>The database\<close>

text \<open>
  The state of the MySQL database behind \<^verbatim>\<open>*sql.DB\<close>: the three tables of
  \<^verbatim>\<open>createTables\<close>, the \<^verbatim>\<open>AUTO_INCREMENT\<close> counters of \<^verbatim>\<open>licenses\<close> and
  \<^verbatim>\<open>Accounts\<close>, and the number of transactions that were begun and neither
  committed nor rolled back. SQL \<^verbatim>\<open>=\<close> on a \<^verbatim>\<open>VARCHAR\<close> column compares under
  the column's collation, which the schema leaves to the server; it is the
  field \<open>collation\<close>, and no operation changes it.
\<close>

record database =
  licenses :: "License list"
  audit_log :: "audit_row list"
  Accounts :: "Account list"
  license_seq :: int
  account_seq :: int
  open_tx :: nat
  collation :: "string \<Rightarrow> string \<Rightarrow> bool"

text \<open>
  A call of the driver can fail for reasons outside the program (lost
  connection, lock wait timeout, data too long). Each operation takes the
  outcome of its driver calls as a parameter: \<open>None\<close> when the call goes
  through, \<open>Some text\<close> when it fails with a driver error of that text.
\<close>

record tx_faults =
  begin_fault :: "string option"
  stmt_fault :: "string option"
  rows_fault :: "string option"
  audit_fault :: "string option"
  commit_fault :: "string option"

definition no_faults :: tx_faults where
  "no_faults = \<lparr>begin_fault = None, stmt_fault = None, rows_fault = None,
                 audit_fault = None, commit_fault = None\<rparr>"

subsection \<open>Transactions\<close>

text \<open>
  Inside a transaction the statements work on a copy of the state; \<open>snap\<close> is
  the state at \<^verbatim>\<open>Begin\<close>. \<^verbatim>\<open>Commit\<close> installs the copy and ends the
  transaction; when it fails the transaction is over all the same and nothing
  of it is installed. \<^verbatim>\<open>Rollback\<close> restores the tables of the snapshot (InnoDB
  does not give back \<^verbatim>\<open>AUTO_INCREMENT\<close> values). A transaction that is left
  without either call stays open and its changes are never installed.
\<close>

definition Begin :: "database \<Rightarrow> database" where
  "Begin db = db\<lparr>open_tx := Suc (open_tx db)\<rparr>"

definition restore :: "database \<Rightarrow> database \<Rightarrow> database" where
  "restore snap w =
     w\<lparr>licenses := licenses snap, audit_log := audit_log snap, Accounts := Accounts snap\<rparr>"

definition Rollback :: "database \<Rightarrow> database \<Rightarrow> database" where
  "Rollback snap w = (restore snap w)\<lparr>open_tx := open_tx w - 1\<rparr>"

definition Commit :: "string option \<Rightarrow> database \<Rightarrow> database \<Rightarrow> database \<times> error option" where
  "Commit fault snap w =
     (case fault of
        Some e \<Rightarrow> ((restore snap w)\<lparr>open_tx := open_tx w - 1\<rparr>, Some (DriverError e))
      | None \<Rightarrow> (w\<lparr>open_tx := open_tx w - 1\<rparr>, None))"

definition abandoned :: "database \<Rightarrow> database \<Rightarrow> database" where
  "abandoned snap w = restore snap w"

subsection \<open>Statements\<close>

definition same_license :: "database \<Rightarrow> string \<Rightarrow> string \<Rightarrow> License \<Rightarrow> bool" where
  "same_license db key product' r = (collation db (Key r) key \<and> collation db (Product r) product')"

text \<open>
  The text of the error the driver (go-sql-driver/mysql v1.8.1, \<^verbatim>\<open>go.mod\<close>)
  reports when an \<^verbatim>\<open>INSERT\<close> violates \<^verbatim>\<open>UNIQUE KEY uk_license_product\<close>: error
  number, SQL state, and the server's message, which quotes the entry and the
  key.
\<close>

definition duplicate_entry :: "string \<Rightarrow> string \<Rightarrow> string" where
  "duplicate_entry key product' =
     ''Error 1062 (23000): Duplicate entry '' @ [CHR 0x27] @ key @ ''-'' @ product' @ [CHR 0x27]
       @ '' for key '' @ [CHR 0x27] @ ''licenses.uk_license_product'' @ [CHR 0x27]"

text \<open>
  \<^verbatim>\<open>INSERT INTO licenses (license_key, product, expires_at, owner_email,
  owner_name) VALUES (?, ?, ?, ?, ?)\<close>; \<^verbatim>\<open>is_activated\<close> takes its default.
\<close>

definition insert_license ::
  "string option \<Rightarrow> database \<Rightarrow> string \<Rightarrow> string \<Rightarrow> time option \<Rightarrow> string \<Rightarrow> string
     \<Rightarrow> error + database" where
  "insert_license fault w key product' expiresAt ownerEmail ownerName =
     (case fault of
        Some e \<Rightarrow> Inl (DriverError e)
      | None \<Rightarrow>
          if list_ex (same_license w key product') (licenses w)
          then Inl (DriverError (duplicate_entry key product'))
          else Inr (w\<lparr>licenses := licenses w @
                         [\<lparr>ID = license_seq w, Key = key, Product = product',
                           ExpiresAt = expiresAt, OwnerEmail = ownerEmail,
                           OwnerName = ownerName, IsActivated = False\<rparr>],
                       license_seq := license_seq w + 1\<rparr>))"

text \<open>
  \<^verbatim>\<open>INSERT INTO audit_log (action, license_key, product[, details]) VALUES
  (...)\<close>; \<^verbatim>\<open>changed_at\<close> defaults to the server's current time.
\<close>

definition insert_audit ::
  "string option \<Rightarrow> time \<Rightarrow> database \<Rightarrow> string \<Rightarrow> string \<Rightarrow> string \<Rightarrow> string option
     \<Rightarrow> error + database" where
  "insert_audit fault now w act key product' det =
     (case fault of
        Some e \<Rightarrow> Inl (DriverError e)
      | None \<Rightarrow>
          Inr (w\<lparr>audit_log := audit_log w @
                    [\<lparr>action = act, license_key = key, product = product',
                      changed_at = now, details = det\<rparr>]\<rparr>))"

text \<open>
  \<^verbatim>\<open>DELETE FROM licenses WHERE license_key = ? AND product = ?\<close>, with the
  number of rows it deleted.
\<close>

definition delete_license ::
  "string option \<Rightarrow> database \<Rightarrow> string \<Rightarrow> string \<Rightarrow> error + (database \<times> nat)" where
  "delete_license fault w key product' =
     (case fault of
        Some e \<Rightarrow> Inl (DriverError e)
      | None \<Rightarrow>
          Inr (w\<lparr>licenses := filter (\<lambda>r. \<not> same_license w key product' r) (licenses w)\<rparr>,
               length (filter (same_license w key product') (licenses w))))"

subsection \<open>\<^verbatim>\<open>database/database.go\<close>\<close>

fun isDuplicateKeyError :: "error option \<Rightarrow> bool" where
  "isDuplicateKeyError None = False"
| "isDuplicateKeyError (Some err) = (Error err = ''Error 1062: Duplicate entry'')"

text \<open>
  \<^verbatim>\<open>Database.AddLicense\<close>. The deferred function rolls back when the variable
  \<^verbatim>\<open>err\<close> is not nil at return, that is after a failed \<^verbatim>\<open>Exec\<close>; the function
  ends with \<^verbatim>\<open>return tx.Commit()\<close>.
\<close>

definition Database_AddLicense ::
  "tx_faults \<Rightarrow> time \<Rightarrow> database \<Rightarrow> string \<Rightarrow> string \<Rightarrow> time option \<Rightarrow> string \<Rightarrow> string
     \<Rightarrow> database \<times> error option" where
  "Database_AddLicense f now db key product' expiresAt ownerEmail ownerName =
     (case begin_fault f of
        Some e \<Rightarrow> (db, Some (Wrapped ''transaction begin failed'' (DriverError e)))
      | None \<Rightarrow>
         (case insert_license (stmt_fault f) (Begin db) key product' expiresAt ownerEmail ownerName of
            Inl err \<Rightarrow>
              (Rollback db (Begin db),
               Some (if isDuplicateKeyError (Some err) then ErrDuplicateKey
                     else Wrapped ''license insert failed'' err))
          | Inr w1 \<Rightarrow>
             (case insert_audit (audit_fault f) now w1 ''ADD'' key product'
                     (Some (''Owner: '' @ ownerName @ '' ('' @ ownerEmail @ '')'')) of
                Inl err \<Rightarrow> (Rollback db w1, Some (Wrapped ''audit log insert failed'' err))
              | Inr w2 \<Rightarrow> Commit (commit_fault f) db w2)))"

text \<open>
  \<^verbatim>\<open>Database.GetLicense\<close>: \<^verbatim>\<open>QueryRow\<close> and \<^verbatim>\<open>Scan\<close> of the first matching row.
  \<^verbatim>\<open>sql.ErrNoRows\<close> becomes \<open>ErrLicenseNotFound\<close>, any other error is wrapped.
\<close>

definition Database_GetLicense ::
  "string option \<Rightarrow> database \<Rightarrow> string \<Rightarrow> string \<Rightarrow> error + License" where
  "Database_GetLicense fault db key product' =
     (case fault of
        Some e \<Rightarrow> Inl (Wrapped ''license query failed'' (DriverError e))
      | None \<Rightarrow>
         (case find (same_license db key product') (licenses db) of
            None \<Rightarrow> Inl ErrLicenseNotFound
          | Some lic \<Rightarrow> Inr lic))"

text \<open>
  \<^verbatim>\<open>Database.DeleteLicense\<close>. When no row was affected the function returns
  \<open>ErrLicenseNotFound\<close> while the variable \<^verbatim>\<open>err\<close> is nil, so the deferred
  function does not roll back: the transaction is left open.
\<close>

definition Database_DeleteLicense ::
  "tx_faults \<Rightarrow> time \<Rightarrow> database \<Rightarrow> string \<Rightarrow> string \<Rightarrow> database \<times> error option" where
  "Database_DeleteLicense f now db key product' =
     (case begin_fault f of
        Some e \<Rightarrow> (db, Some (Wrapped ''transaction begin failed'' (DriverError e)))
      | None \<Rightarrow>
         (case delete_license (stmt_fault f) (Begin db) key product' of
            Inl err \<Rightarrow> (Rollback db (Begin db), Some (Wrapped ''license delete failed'' err))
          | Inr (w1, rowsAffected) \<Rightarrow>
             (case rows_fault f of
                Some e \<Rightarrow>
                  (Rollback db w1, Some (Wrapped ''rows affected check failed'' (DriverError e)))
              | None \<Rightarrow>
                 if rowsAffected = 0 then (abandoned db w1, Some ErrLicenseNotFound)
                 else
                   (case insert_audit (audit_fault f) now w1 ''DELETE'' key product' None of
                      Inl err \<Rightarrow> (Rollback db w1, Some (Wrapped ''audit log insert failed'' err))
                    | Inr w2 \<Rightarrow> Commit (commit_fault f) db w2))))"

section \<open>\<^verbatim>\<open>license/service.go\<close>\<close>

definition Service_AddLicense ::
  "tx_faults \<Rightarrow> time \<Rightarrow> database \<Rightarrow> string \<Rightarrow> string \<Rightarrow> string \<Rightarrow> string \<Rightarrow> time option
     \<Rightarrow> database \<times> error option" where
  "Service_AddLicense f now db key product' ownerEmail ownerName expiresAt =
     (if \<not> isValidLicenseKey key then (db, Some ErrInvalidLicenseKey)
      else if \<not> isValidEmail ownerEmail then (db, Some ErrInvalidEmail)
      else Database_AddLicense f now db key product' expiresAt ownerEmail ownerName)"

definition Service_GetLicense ::
  "string option \<Rightarrow> database \<Rightarrow> string \<Rightarrow> string \<Rightarrow> error + License" where
  "Service_GetLicense fault db key product' = Database_GetLicense fault db key product'"

definition Service_DeleteLicense ::
  "tx_faults \<Rightarrow> time \<Rightarrow> database \<Rightarrow> string \<Rightarrow> string \<Rightarrow> database \<times> error option" where
  "Service_DeleteLicense f now db key product' = Database_DeleteLicense f now db key product'"

section \<open>\<^verbatim>\<open>license/handler.go\<close>\<close>

record VerifyRequest =
  req_Key :: string
  req_Product :: string

record VerifyResponse =
  Valid :: bool
  Reason :: string
  resp_Key :: string
  resp_Product :: string
  resp_ExpiresAt :: "time option"
  resp_OwnerEmail :: string
  resp_OwnerName :: string
  resp_IsActivated :: bool

text \<open>
  \<^verbatim>\<open>json.NewEncoder(w).Encode(resp)\<close> writes an object with one member per
  struct field, in the order of the fields, under the name of the field's
  tag. A field tagged \<^verbatim>\<open>omitempty\<close> is left out when it is empty: \<^verbatim>\<open>false\<close>,
  the empty string, a nil pointer. Only \<^verbatim>\<open>valid\<close> has no such tag.
\<close>

datatype json = JBool bool | JString string | JTime time

type_synonym json_object = "(string \<times> json) list"

definition omitempty_string :: "string \<Rightarrow> string \<Rightarrow> json_object" where
  "omitempty_string name v = (if v = [] then [] else [(name, JString v)])"

definition omitempty_bool :: "string \<Rightarrow> bool \<Rightarrow> json_object" where
  "omitempty_bool name v = (if v then [(name, JBool v)] else [])"

definition omitempty_time :: "string \<Rightarrow> time option \<Rightarrow> json_object" where
  "omitempty_time name v = (case v of None \<Rightarrow> [] | Some t \<Rightarrow> [(name, JTime t)])"

definition Encode :: "VerifyResponse \<Rightarrow> json_object" where
  "Encode resp =
     [(''valid'', JBool (Valid resp))]
     @ omitempty_string ''reason'' (Reason resp)
     @ omitempty_string ''key'' (resp_Key resp)
     @ omitempty_string ''product'' (resp_Product resp)
     @ omitempty_time ''expires_at'' (resp_ExpiresAt resp)
     @ omitempty_string ''owner_email'' (resp_OwnerEmail resp)
     @ omitempty_string ''owner_name'' (resp_OwnerName resp)
     @ omitempty_bool ''is_activated'' (resp_IsActivated resp)"

text \<open>
  What a handler writes: \<^verbatim>\<open>http.Error(w, msg, code)\<close>, or a JSON body with the
  default status 200.
\<close>

datatype http_response = HttpError nat string | Json json_object

definition sendResponse :: "VerifyResponse \<Rightarrow> http_response" where
  "sendResponse resp = Json (Encode resp)"

text \<open>The zero value of \<^verbatim>\<open>VerifyResponse\<close>: the fields a composite literal leaves out.\<close>

definition VerifyResponse_zero :: VerifyResponse where
  "VerifyResponse_zero =
     \<lparr>Valid = False, Reason = [], resp_Key = [], resp_Product = [], resp_ExpiresAt = None,
      resp_OwnerEmail = [], resp_OwnerName = [], resp_IsActivated = False\<rparr>"

text \<open>
  The request as the handler sees it: the method, and the body as
  \<^verbatim>\<open>json.Decode\<close> reads it (\<open>None\<close> when decoding fails).
\<close>

record http_request =
  Method :: string
  Body :: "VerifyRequest option"

definition Handler_VerifyLicense ::
  "string option \<Rightarrow> time \<Rightarrow> database \<Rightarrow> http_request \<Rightarrow> http_response" where
  "Handler_VerifyLicense fault now db r =
     (if Method r \<noteq> ''POST'' then HttpError 405 ''Method not allowed''
      else
        (case Body r of
           None \<Rightarrow> HttpError 400 ''Invalid request''
         | Some req \<Rightarrow>
            (case Service_GetLicense fault db (req_Key req) (req_Product req) of
               Inl err \<Rightarrow>
                 sendResponse (VerifyResponse_zero\<lparr>Valid := False, Reason := ''License not found''\<rparr>)
             | Inr license \<Rightarrow>
                 if ExpiresAt license \<noteq> None \<and> now > the (ExpiresAt license)
                 then sendResponse
                        (VerifyResponse_zero\<lparr>Valid := False, Reason := ''License expired''\<rparr>)
                 else sendResponse
                        (VerifyResponse_zero
                           \<lparr>Valid := True,
                            resp_Key := Key license,
                            resp_Product := Product license,
                            resp_ExpiresAt := ExpiresAt license,
                            resp_OwnerEmail := OwnerEmail license,
                            resp_OwnerName := OwnerName license,
                            resp_IsActivated := IsActivated license\<rparr>))))"

section \<open>\<^verbatim>\<open>web/service\<close>: accounts\<close>

text \<open>
  The two messages of the account service, as their UTF-8 bytes:
  \<^verbatim>\<open>errors.New\<close> of the Turkish for "the passwords do not match" and for
  "e-mail or password is wrong".
\<close>

definition passwords_differ :: string where
  "passwords_differ =
     [CHR 0xC5, CHR 0x9F] @ ''ifreler uyu'' @ [CHR 0xC5, CHR 0x9F] @ ''muyor''"

definition wrong_email_or_password :: string where
  "wrong_email_or_password =
     ''e-posta veya '' @ [CHR 0xC5, CHR 0x9F] @ ''ifre hatal'' @ [CHR 0xC4, CHR 0xB1]"

text \<open>
  \<^verbatim>\<open>INSERT INTO Accounts (username, email, password_hash) VALUES (?, ?, ?)\<close>,
  outside a transaction. \<^verbatim>\<open>username\<close> and \<^verbatim>\<open>email\<close> are \<^verbatim>\<open>UNIQUE\<close> each.
\<close>

definition duplicate_account :: "string \<Rightarrow> string \<Rightarrow> string" where
  "duplicate_account v column =
     ''Error 1062 (23000): Duplicate entry '' @ [CHR 0x27] @ v @ [CHR 0x27]
       @ '' for key '' @ [CHR 0x27] @ ''Accounts.'' @ column @ [CHR 0x27]"

definition insert_account ::
  "string option \<Rightarrow> string \<Rightarrow> database \<Rightarrow> string \<Rightarrow> string \<Rightarrow> string
     \<Rightarrow> database \<times> error option" where
  "insert_account fault now_text db username email hashed =
     (case fault of
        Some e \<Rightarrow> (db, Some (DriverError e))
      | None \<Rightarrow>
          if list_ex (\<lambda>a. collation db (Username a) username) (Accounts db)
          then (db, Some (DriverError (duplicate_account username ''username'')))
          else if list_ex (\<lambda>a. collation db (Email a) email) (Accounts db)
          then (db, Some (DriverError (duplicate_account email ''email'')))
          else (db\<lparr>Accounts := Accounts db @
                       [\<lparr>acc_ID = account_seq db, Username = username, Email = email,
                         PasswordHash = hashed, CreatedAt = now_text,
                         LastLogin = None, LastLoginIP = None\<rparr>],
                     account_seq := account_seq db + 1\<rparr>, None))"

text \<open>
  \<^verbatim>\<open>AuthService.Register\<close>. \<^verbatim>\<open>utils.HashPassword\<close> is not among the sources; it
  is the parameter \<open>HashPassword\<close>.
\<close>

definition Register ::
  "(string \<Rightarrow> error + string) \<Rightarrow> string option \<Rightarrow> string \<Rightarrow> database
     \<Rightarrow> string \<Rightarrow> string \<Rightarrow> string \<Rightarrow> string \<Rightarrow> database \<times> error option" where
  "Register HashPassword fault now_text db username email password passwordRepeat =
     (if password \<noteq> passwordRepeat then (db, Some (ErrorsNew passwords_differ))
      else
        (case HashPassword password of
           Inl err \<Rightarrow> (db, Some err)
         | Inr hashed \<Rightarrow> insert_account fault now_text db username email hashed))"

text \<open>
  \<^verbatim>\<open>UPDATE Accounts SET last_login = NOW() WHERE id = ?\<close>; the caller drops its
  error.
\<close>

definition update_last_login :: "string option \<Rightarrow> string \<Rightarrow> database \<Rightarrow> int \<Rightarrow> database" where
  "update_last_login fault now_text db i =
     (case fault of
        Some e \<Rightarrow> db
      | None \<Rightarrow>
          db\<lparr>Accounts :=
               map (\<lambda>a. if acc_ID a = i then a\<lparr>LastLogin := Some now_text\<rparr> else a)
                 (Accounts db)\<rparr>)"

text \<open>
  \<^verbatim>\<open>AuthService.Login\<close>. \<^verbatim>\<open>utils.CheckPasswordHash\<close> is not among the sources; it
  is the parameter \<open>CheckPasswordHash\<close>. \<open>qfault\<close> is the outcome of the query,
  \<open>ufault\<close> of the update.
\<close>

definition Login ::
  "(string \<Rightarrow> string \<Rightarrow> bool) \<Rightarrow> string option \<Rightarrow> string option \<Rightarrow> string \<Rightarrow> database
     \<Rightarrow> string \<Rightarrow> string \<Rightarrow> database \<times> (error + Account)" where
  "Login CheckPasswordHash qfault ufault now_text db email password =
     (case qfault of
        Some e \<Rightarrow> (db, Inl (ErrorsNew wrong_email_or_password))
      | None \<Rightarrow>
         (case find (\<lambda>a. collation db (Email a) email) (Accounts db) of
            None \<Rightarrow> (db, Inl (ErrorsNew wrong_email_or_password))
          | Some acc \<Rightarrow>
             if \<not> CheckPasswordHash password (PasswordHash acc)
             then (db, Inl (ErrorsNew wrong_email_or_password))
             else (update_last_login ufault now_text db (acc_ID acc), Inr acc)))"

section \<open>\<^verbatim>\<open>utils/jwt.go\<close>\<close>

text \<open>
  The claims of a token: \<^verbatim>\<open>user_id\<close> and, of the registered claims, the two
  that \<^verbatim>\<open>GenerateJWT\<close> writes. \<^verbatim>\<open>jwt.NewNumericDate\<close> truncates an instant to
  the library's \<^verbatim>\<open>TimePrecision\<close>, one second.
\<close>

record Claims =
  UserID :: int
  claims_ExpiresAt :: "time option"
  IssuedAt :: "time option"

definition Second :: int where
  "Second = 1000000000"

definition Hour :: int where
  "Hour = 3600 * Second"

definition NewNumericDate :: "time \<Rightarrow> time" where
  "NewNumericDate t = t - t mod Second"

text \<open>
  Tokens are symbolic. A compact serialization that the library can split
  and decode is \<open>JWS alg claims sig\<close>; any other string is \<open>Malformed\<close>. A
  signature is a message authentication code, symbolic as well: \<open>Mac key alg
  claims\<close> is the code that the HMAC method \<open>alg\<close> computes under \<open>key\<close> for the
  header and claims of the token, and nothing else verifies for them.
\<close>

datatype signature = Mac string string Claims | Junk string

datatype jws = JWS string Claims signature | Malformed

definition jwtKey :: string where
  "jwtKey = ''8394URNV893JFNCUW819SJDHUC8EISJCJHD72W8XDMJDJEJWIZIDMRM38W9D938284949WUCNHDEU''"

text \<open>
  \<^verbatim>\<open>GenerateJWT\<close> reads the clock twice: \<open>now1\<close> for the expiry, \<open>now2\<close> for
  \<^verbatim>\<open>iat\<close>. \<^verbatim>\<open>SignedString\<close> does not fail for an HMAC method with a byte-string
  key.
\<close>

definition GenerateJWT :: "time \<Rightarrow> time \<Rightarrow> int \<Rightarrow> jws" where
  "GenerateJWT now1 now2 userID =
     (let claims = \<lparr>UserID = userID,
                    claims_ExpiresAt = Some (NewNumericDate (now1 + 24 * Hour)),
                    IssuedAt = Some (NewNumericDate now2)\<rparr>
      in JWS ''HS256'' claims (Mac jwtKey ''HS256'' claims))"

text \<open>
  The errors of the library (github.com/golang-jwt/jwt/v5) and its
  \<^verbatim>\<open>ParseWithClaims\<close> with the default options, for the key the key function
  returns: the token is split and decoded, the method of its header is looked
  up, the signature is verified, then the claims are validated (\<^verbatim>\<open>exp\<close>, when
  present, must lie after the current time). The result is the token's
  \<^verbatim>\<open>Valid\<close> flag, the claims read, and the error.
\<close>

datatype jwt_error =
    ErrTokenMalformed
  | ErrTokenUnverifiable
  | ErrTokenSignatureInvalid
  | ErrTokenExpired

definition hmac_methods :: "string list" where
  "hmac_methods = [''HS256'', ''HS384'', ''HS512'']"

definition other_methods :: "string list" where
  "other_methods =
     [''RS256'', ''RS384'', ''RS512'', ''PS256'', ''PS384'', ''PS512'',
      ''ES256'', ''ES384'', ''ES512'', ''EdDSA'', ''none'']"

definition ParseWithClaims ::
  "string \<Rightarrow> time \<Rightarrow> jws \<Rightarrow> bool \<times> Claims option \<times> jwt_error option" where
  "ParseWithClaims key now tokenStr =
     (case tokenStr of
        Malformed \<Rightarrow> (False, None, Some ErrTokenMalformed)
      | JWS alg claims sg \<Rightarrow>
          if alg \<notin> set hmac_methods \<and> alg \<notin> set other_methods
          then (False, Some claims, Some ErrTokenUnverifiable)
          else if alg \<notin> set hmac_methods \<or> sg \<noteq> Mac key alg claims
          then (False, Some claims, Some ErrTokenSignatureInvalid)
          else
            (case claims_ExpiresAt claims of
               None \<Rightarrow> (True, Some claims, None)
             | Some exp \<Rightarrow>
                 if now < exp then (True, Some claims, None)
                 else (False, Some claims, Some ErrTokenExpired)))"

text \<open>
  \<^verbatim>\<open>ParseJWT\<close>: \<^verbatim>\<open>if err != nil || !token.Valid { return nil, err }\<close>, else the
  claims.
\<close>

definition ParseJWT :: "time \<Rightarrow> jws \<Rightarrow> Claims option \<times> jwt_error option" where
  "ParseJWT now tokenStr =
     (case ParseWithClaims jwtKey now tokenStr of
        (valid, claims, err) \<Rightarrow>
          if err \<noteq> None \<or> \<not> valid then (None, err) else (claims, None))"

section \<open>\<^verbatim>\<open>web/middleware\<close>: \<^verbatim>\<open>JWTAuthMiddleware\<close>\<close>

text \<open>
  The \<^verbatim>\<open>Authorization\<close> header with tokens symbolic: \<open>Bearer t\<close> is the prefix
  \<^verbatim>\<open>"Bearer "\<close> followed by the token \<open>t\<close>, \<open>Other s\<close> a value \<open>s\<close> without that
  prefix. The middleware answers with \<^verbatim>\<open>http.Error\<close>, or calls the next handler
  with the user id in the context; \<^verbatim>\<open>claims.UserID\<close> on nil claims panics.
\<close>

datatype authorization = Other string | Bearer jws

datatype handled = Responded nat string | Next int | Panic

text \<open>The UTF-8 bytes of the Turkish for "invalid token".\<close>

definition invalid_token :: string where
  "invalid_token = ''Ge'' @ [CHR 0xC3, CHR 0xA7] @ ''ersiz token''"

definition JWTAuthMiddleware :: "time \<Rightarrow> authorization \<Rightarrow> handled" where
  "JWTAuthMiddleware now auth =
     (case auth of
        Other s \<Rightarrow> Responded 401 ''Yetkisiz (eksik token)''
      | Bearer tokenStr \<Rightarrow>
         (case ParseJWT now tokenStr of
            (claims, Some err) \<Rightarrow> Responded 401 invalid_token
          | (Some claims, None) \<Rightarrow> Next (UserID claims)
          | (None, None) \<Rightarrow> Panic))"

section \<open>\<^verbatim>\<open>utils/keygen.go\<close>\<close>

text \<open>
  The alphabet of generated keys, and \<^verbatim>\<open>GenerateLicenseKey\<close> with the sixteen
  draws of \<^verbatim>\<open>rand.Intn(len(chars))\<close> as a parameter: draw \<open>4 * i + j\<close> is the
  character \<open>j\<close> of group \<open>i\<close>.
\<close>

definition chars :: string where
  "chars = ''ABCDEFGHIJKLMNOPQRSTUVWXYZ0123456789''"

definition key_group :: "(nat \<Rightarrow> nat) \<Rightarrow> nat \<Rightarrow> string" where
  "key_group draw i = map (\<lambda>j. chars ! (draw (4 * i + j) mod length chars)) [0 ..< 4]"

definition GenerateLicenseKey :: "(nat \<Rightarrow> nat) \<Rightarrow> string" where
  "GenerateLicenseKey draw =
     key_group draw 0 @ ''-'' @ key_group draw 1 @ ''-'' @ key_group draw 2 @ ''-''
       @ key_group draw 3"

section \<open>Runs of the writing operations\<close>

text \<open>
  The operations that write to the database, and a run of them from a state.
  The remaining operations (\<^verbatim>\<open>GetLicense\<close>, \<^verbatim>\<open>ListLicenses\<close>, \<^verbatim>\<open>GetAuditLogs\<close>,
  the verify handler) issue \<^verbatim>\<open>SELECT\<close> statements only.
\<close>

datatype operation =
    AddLicenseOp tx_faults time string string string string "time option"
  | DeleteLicenseOp tx_faults time string string
  | RegisterOp "string option" string string string string string
  | LoginOp "string option" "string option" string string string

fun exec ::
  "(string \<Rightarrow> error + string) \<Rightarrow> (string \<Rightarrow> string \<Rightarrow> bool) \<Rightarrow> database \<Rightarrow> operation \<Rightarrow> database" where
  "exec hp chk db (AddLicenseOp f now key p oe on ex) = fst (Service_AddLicense f now db key p oe on ex)"
| "exec hp chk db (DeleteLicenseOp f now key p) = fst (Service_DeleteLicense f now db key p)"
| "exec hp chk db (RegisterOp fault now_text u e pw pw2) = fst (Register hp fault now_text db u e pw pw2)"
| "exec hp chk db (LoginOp q u now_text e pw) = fst (Login chk q u now_text db e pw)"

definition exec_all ::
  "(string \<Rightarrow> error + string) \<Rightarrow> (string \<Rightarrow> string \<Rightarrow> bool) \<Rightarrow> database \<Rightarrow> operation list \<Rightarrow> database" where
  "exec_all hp chk db ops = foldl (exec hp chk) db ops"

section \<open>The shapes the specification names\<close>

text \<open>
  A group of a license key in the specification's words: four characters,
  each an uppercase letter or a digit.
\<close>

definition group4 :: "string \<Rightarrow> bool" where
  "group4 g = (length g = 4 \<and> list_all (\<lambda>c. c \<in> set chars) g)"

text \<open>
  The permissive shape of an e-mail address in the specification's words:
  exactly one \<^verbatim>\<open>@\<close>, and at least one \<^verbatim>\<open>.\<close> somewhere after it.
\<close>

definition permissive_shape :: "string \<Rightarrow> bool" where
  "permissive_shape email =
     (count_list email CHR ''@'' = 1
      \<and> CHR ''.'' \<in> set (tl (dropWhile (\<lambda>c. c \<noteq> CHR ''@'') email)))"

section \<open>Example states\<close>

definition empty_db :: database where
  "empty_db =
     \<lparr>licenses = [], audit_log = [], Accounts = [], license_seq = 1, account_seq = 1,
      open_tx = 0, collation = (=)\<rparr>"

text \<open>
  The state after \<^verbatim>\<open>add --key ABCD-1234-EFGH-5678 --product Demo --email a@b.com
  --name "A B"\<close> at time 100 on the empty database.
\<close>

definition demo_license :: License where
  "demo_license =
     \<lparr>ID = 1, Key = ''ABCD-1234-EFGH-5678'', Product = ''Demo'', ExpiresAt = None,
      OwnerEmail = ''a@b.com'', OwnerName = ''A B'', IsActivated = False\<rparr>"

definition demo_db :: database where
  "demo_db =
     \<lparr>licenses = [demo_license],
      audit_log = [\<lparr>action = ''ADD'', license_key = ''ABCD-1234-EFGH-5678'', product = ''Demo'',
                    changed_at = 100, details = Some ''Owner: A B (a@b.com)''\<rparr>],
      Accounts = [], license_seq = 2, account_seq = 1, open_tx = 0, collation = (=)\<rparr>"

text \<open>A \<^verbatim>\<open>POST\<close> request to \<^verbatim>\<open>/license/verify\<close> whose body decodes.\<close>

definition verify_post :: "string \<Rightarrow> string \<Rightarrow> http_request" where
  "verify_post key product' =
     \<lparr>Method = ''POST'', Body = Some \<lparr>req_Key = key, req_Product = product'\<rparr>\<rparr>"

text \<open>The demo license, activated and expiring at time 150.\<close>

definition expiring_db :: database where
  "expiring_db =
     demo_db\<lparr>licenses := [demo_license\<lparr>ExpiresAt := Some 150, IsActivated := True\<rparr>]\<rparr>"

text \<open>A database with one account, for the examples.\<close>

definition accounts_db :: database where
  "accounts_db =
     empty_db\<lparr>Accounts := [\<lparr>acc_ID = 1, Username = ''jane'', Email = ''jane@example.com'',
                              PasswordHash = ''hash:Passw0rd!'', CreatedAt = ''2026-01-01 00:00:00'',
                              LastLogin = None, LastLoginIP = None\<rparr>],
               account_seq := 2\<rparr>"

text \<open>A stand-in for the two password functions in the examples.\<close>

definition demo_hash :: "string \<Rightarrow> error + string" where
  "demo_hash password = Inr (''hash:'' @ password)"

definition demo_check :: "string \<Rightarrow> string \<Rightarrow> bool" where
  "demo_check password hash = (hash = ''hash:'' @ password)"

text \<open>Faults for the examples: only the audit insert fails.\<close>

definition audit_insert_fails :: tx_faults where
  "audit_insert_fails = no_faults\<lparr>audit_fault := Some ''driver: bad connection''\<rparr>"

text \<open>A token signed with another key, for the examples.\<close>

definition forged_token :: jws where
  "forged_token =
     JWS ''HS256'' \<lparr>UserID = 1, claims_ExpiresAt = Some (48 * Hour), IssuedAt = Some 0\<rparr>
       (Mac ''not the secret'' ''HS256''
          \<lparr>UserID = 1, claims_ExpiresAt = Some (48 * Hour), IssuedAt = Some 0\<rparr>)"

section \<open>What the two patterns accept\<close>

lemma upper_alnum_iff: "cclass_match upper_alnum c = (c \<in> set chars)"
proof
  assume "c \<in> set chars"
  then show "cclass_match upper_alnum c"
    by (auto simp: chars_def upper_alnum_def)
next
  assume a: "cclass_match upper_alnum c"
  define n :: nat where "n = of_char c"
  have c: "c = char_of n" by (simp add: n_def)
  from a have "(65 \<le> n \<and> n \<le> 90) \<or> (48 \<le> n \<and> n \<le> 57)"
    by (auto simp: upper_alnum_def n_def)
  then have "n \<in> {65 ..< 91} \<union> {48 ..< 58}" by auto
  then have "n \<in> set ([65 ..< 91] @ [48 ..< 58])" by (simp only: set_append set_upt)
  then have "char_of n \<in> char_of ` set ([65 ..< 91] @ [48 ..< 58])" by blast
  also have "char_of ` set ([65 ..< 91] @ [48 ..< 58]) = set (map char_of ([65 ..< 91] @ [48 ..< 58] :: nat list))" by simp
  also have "map char_of ([65 ..< 91] @ [48 ..< 58] :: nat list) = chars"
    unfolding chars_def by code_simp
  finally show "c \<in> set chars" using c by simp
qed

lemma run_Nil [simp]: "(run [] p \<noteq> []) = True" by simp

lemma run_BeginText: "(run (BeginText # rs) (b, t) \<noteq> []) = (b \<and> run rs (b, t) \<noteq> [])"
  by (cases b) simp_all

lemma run_EndText: "(run (EndText # rs) (b, t) \<noteq> []) = (t = [] \<and> run rs (b, t) \<noteq> [])"
  by (cases t) simp_all

lemma run_One:
  "(run (One c # rs) (b, t) \<noteq> []) = (\<exists>x t'. t = x # t' \<and> cclass_match c x \<and> run rs (False, t') \<noteq> [])"
  by (cases t) auto

lemma run_Repeat:
  "(run (Repeat c n # rs) (b, t) \<noteq> []) =
     (\<exists>m t'. t = m @ t' \<and> length m = n \<and> list_all (cclass_match c) m \<and> run rs (b \<and> n = 0, t') \<noteq> [])"
proof
  assume "run (Repeat c n # rs) (b, t) \<noteq> []"
  then have "n \<le> length t" "list_all (cclass_match c) (take n t)" "run rs (b \<and> n = 0, drop n t) \<noteq> []"
    by (auto split: if_splits)
  then show "\<exists>m t'. t = m @ t' \<and> length m = n \<and> list_all (cclass_match c) m \<and> run rs (b \<and> n = 0, t') \<noteq> []"
    by (intro exI[of _ "take n t"] exI[of _ "drop n t"]) simp
next
  assume "\<exists>m t'. t = m @ t' \<and> length m = n \<and> list_all (cclass_match c) m \<and> run rs (b \<and> n = 0, t') \<noteq> []"
  then show "run (Repeat c n # rs) (b, t) \<noteq> []" by auto
qed

lemma take_within_takeWhile:
  "k \<le> length (takeWhile P t) \<Longrightarrow> list_all P (take k t)"
proof -
  assume k: "k \<le> length (takeWhile P t)"
  have "take k (takeWhile P t @ dropWhile P t) = take k (takeWhile P t)"
    using k by (simp del: takeWhile_dropWhile_id)
  then have "take k t = take k (takeWhile P t)" by (simp only: takeWhile_dropWhile_id)
  then have "set (take k t) \<subseteq> set (takeWhile P t)" by (simp add: set_take_subset)
  then show ?thesis by (auto simp: list_all_iff dest: set_takeWhileD)
qed

lemma run_Plus:
  "(run (Plus c # rs) (b, t) \<noteq> []) =
     (\<exists>m t'. t = m @ t' \<and> m \<noteq> [] \<and> list_all (cclass_match c) m \<and> run rs (False, t') \<noteq> [])"
proof
  assume "run (Plus c # rs) (b, t) \<noteq> []"
  then obtain k where k: "1 \<le> k" "k \<le> length (takeWhile (cclass_match c) t)"
    and r: "run rs (False, drop k t) \<noteq> []"
    by auto
  have "k \<le> length t" using k(2) length_takeWhile_le[of "cclass_match c" t] by linarith
  with k have "take k t \<noteq> []" by auto
  with k r take_within_takeWhile[OF k(2)]
  show "\<exists>m t'. t = m @ t' \<and> m \<noteq> [] \<and> list_all (cclass_match c) m \<and> run rs (False, t') \<noteq> []"
    by (intro exI[of _ "take k t"] exI[of _ "drop k t"]) simp
next
  assume "\<exists>m t'. t = m @ t' \<and> m \<noteq> [] \<and> list_all (cclass_match c) m \<and> run rs (False, t') \<noteq> []"
  then obtain m t' where m: "t = m @ t'" "m \<noteq> []" "list_all (cclass_match c) m"
    and r: "run rs (False, t') \<noteq> []" by blast
  have "takeWhile (cclass_match c) t = m @ takeWhile (cclass_match c) t'"
    using m by (simp add: takeWhile_append2 list_all_iff)
  then have "length m \<le> length (takeWhile (cclass_match c) t)" by simp
  moreover have "1 \<le> length m" using m(2) by (cases m) auto
  moreover have "drop (length m) t = t'" using m by simp
  ultimately have "\<exists>k\<in>{1..<Suc (length (takeWhile (cclass_match c) t))}. run rs (False, drop k t) \<noteq> []"
    using r by (intro bexI[of _ "length m"]) auto
  then show "run (Plus c # rs) (b, t) \<noteq> []" by auto
qed

lemma MatchString_anchored: "MatchString (BeginText # rs) s = (run rs (True, s) \<noteq> [])"
proof -
  have "\<And>k. run (BeginText # rs) (k = 0, drop k s) \<noteq> [] \<longleftrightarrow> k = 0 \<and> run rs (True, s) \<noteq> []"
    by auto
  then show ?thesis
    unfolding MatchString_def list_ex_iff by auto
qed





lemma upper_alnum_fun: "cclass_match upper_alnum = (\<lambda>c. c \<in> set chars)"
  by (rule ext) (rule upper_alnum_iff)

lemma run_EndTextI: "run rs (b, []) \<noteq> [] \<Longrightarrow> run (EndText # rs) (b, []) \<noteq> []"
  by (simp only: run_EndText simp_thms)

lemma run_OneI:
  "cclass_match c x \<Longrightarrow> run rs (False, t') \<noteq> [] \<Longrightarrow> run (One c # rs) (b, x # t') \<noteq> []"
  unfolding run_One by blast

lemma run_RepeatI:
  "length m = n \<Longrightarrow> list_all (cclass_match c) m \<Longrightarrow> run rs (b \<and> n = 0, t') \<noteq> []
     \<Longrightarrow> run (Repeat c n # rs) (b, m @ t') \<noteq> []"
  unfolding run_Repeat by blast

lemma run_PlusI:
  "m \<noteq> [] \<Longrightarrow> list_all (cclass_match c) m \<Longrightarrow> run rs (False, t') \<noteq> []
     \<Longrightarrow> run (Plus c # rs) (b, m @ t') \<noteq> []"
  unfolding run_Plus by blast

lemma run_EndTextE:
  assumes "run (EndText # rs) (b, t) \<noteq> []"
  obtains "t = []" "run rs (b, []) \<noteq> []"
  using assms unfolding run_EndText by blast

lemma run_OneE:
  assumes "run (One c # rs) (b, t) \<noteq> []"
  obtains x t' where "t = x # t'" "cclass_match c x" "run rs (False, t') \<noteq> []"
  using assms unfolding run_One by blast

lemma run_RepeatE:
  assumes "run (Repeat c n # rs) (b, t) \<noteq> []"
  obtains m t' where "t = m @ t'" "length m = n" "list_all (cclass_match c) m"
    "run rs (b \<and> n = 0, t') \<noteq> []"
  using assms unfolding run_Repeat by blast

lemma run_PlusE:
  assumes "run (Plus c # rs) (b, t) \<noteq> []"
  obtains m t' where "t = m @ t'" "m \<noteq> []" "list_all (cclass_match c) m"
    "run rs (False, t') \<noteq> []"
  using assms unfolding run_Plus by blast

lemma key_run:
  "(run (tl license_key_pattern) (True, key) \<noteq> []) =
     (\<exists>g1 g2 g3 g4. key = g1 @ ''-'' @ g2 @ ''-'' @ g3 @ ''-'' @ g4
         \<and> group4 g1 \<and> group4 g2 \<and> group4 g3 \<and> group4 g4)"
  (is "?L = ?R")
proof
  assume ?L
  then have r1: "run [Repeat upper_alnum 4, One (Lit CHR ''-''), Repeat upper_alnum 4,
      One (Lit CHR ''-''), Repeat upper_alnum 4, One (Lit CHR ''-''), Repeat upper_alnum 4,
      EndText] (True, key) \<noteq> []"
    unfolding license_key_pattern_def list.sel .
  from r1 obtain g1 t1 where 1: "key = g1 @ t1" "length g1 = 4" "list_all (cclass_match upper_alnum) g1"
    and r2: "run [One (Lit CHR ''-''), Repeat upper_alnum 4,
      One (Lit CHR ''-''), Repeat upper_alnum 4, One (Lit CHR ''-''), Repeat upper_alnum 4,
      EndText] (True \<and> (4::nat) = 0, t1) \<noteq> []"
    by (rule run_RepeatE)
  from r2 obtain x1 t2 where 2: "t1 = x1 # t2" "cclass_match (Lit CHR ''-'') x1"
    and r3: "run [Repeat upper_alnum 4,
      One (Lit CHR ''-''), Repeat upper_alnum 4, One (Lit CHR ''-''), Repeat upper_alnum 4,
      EndText] (False, t2) \<noteq> []"
    by (rule run_OneE)
  from r3 obtain g2 t3 where 3: "t2 = g2 @ t3" "length g2 = 4" "list_all (cclass_match upper_alnum) g2"
    and r4: "run [One (Lit CHR ''-''), Repeat upper_alnum 4, One (Lit CHR ''-''), Repeat upper_alnum 4,
      EndText] (False \<and> (4::nat) = 0, t3) \<noteq> []"
    by (rule run_RepeatE)
  from r4 obtain x2 t4 where 4: "t3 = x2 # t4" "cclass_match (Lit CHR ''-'') x2"
    and r5: "run [Repeat upper_alnum 4, One (Lit CHR ''-''), Repeat upper_alnum 4,
      EndText] (False, t4) \<noteq> []"
    by (rule run_OneE)
  from r5 obtain g3 t5 where 5: "t4 = g3 @ t5" "length g3 = 4" "list_all (cclass_match upper_alnum) g3"
    and r6: "run [One (Lit CHR ''-''), Repeat upper_alnum 4,
      EndText] (False \<and> (4::nat) = 0, t5) \<noteq> []"
    by (rule run_RepeatE)
  from r6 obtain x3 t6 where 6: "t5 = x3 # t6" "cclass_match (Lit CHR ''-'') x3"
    and r7: "run [Repeat upper_alnum 4, EndText] (False, t6) \<noteq> []"
    by (rule run_OneE)
  from r7 obtain g4 t7 where 7: "t6 = g4 @ t7" "length g4 = 4" "list_all (cclass_match upper_alnum) g4"
    and r8: "run [EndText] (False \<and> (4::nat) = 0, t7) \<noteq> []"
    by (rule run_RepeatE)
  from r8 have 8: "t7 = []" by (rule run_EndTextE)
  have "key = g1 @ ''-'' @ g2 @ ''-'' @ g3 @ ''-'' @ g4"
    using 1(1) 2 3(1) 4 5(1) 6 7(1) 8 by simp
  moreover have "group4 g1" "group4 g2" "group4 g3" "group4 g4"
    using 1 3 5 7 by (simp_all add: group4_def upper_alnum_fun)
  ultimately show ?R by blast
next
  assume ?R
  then obtain g1 g2 g3 g4 where k: "key = g1 @ ''-'' @ g2 @ ''-'' @ g3 @ ''-'' @ g4"
    and g: "group4 g1" "group4 g2" "group4 g3" "group4 g4" by blast
  have k': "key = g1 @ CHR ''-'' # g2 @ CHR ''-'' # g3 @ CHR ''-'' # g4 @ []"
    using k by simp
  have g': "length g1 = 4" "length g2 = 4" "length g3 = 4" "length g4 = 4"
    "list_all (cclass_match upper_alnum) g1" "list_all (cclass_match upper_alnum) g2"
    "list_all (cclass_match upper_alnum) g3" "list_all (cclass_match upper_alnum) g4"
    using g unfolding group4_def upper_alnum_fun by simp_all
  have d: "cclass_match (Lit CHR ''-'') CHR ''-''" by simp
  show ?L
    unfolding license_key_pattern_def list.sel k'
    by (intro run_RepeatI run_OneI run_EndTextI g' d) (simp only: run_Nil)
qed


lemma isValidLicenseKey_iff:
  "isValidLicenseKey key =
     (\<exists>g1 g2 g3 g4. key = g1 @ ''-'' @ g2 @ ''-'' @ g3 @ ''-'' @ g4
         \<and> group4 g1 \<and> group4 g2 \<and> group4 g3 \<and> group4 g4)"
proof -
  have "license_key_pattern = BeginText # tl license_key_pattern"
    by (simp add: license_key_pattern_def)
  then have "isValidLicenseKey key = (run (tl license_key_pattern) (True, key) \<noteq> [])"
    unfolding isValidLicenseKey_def using MatchString_anchored by metis
  then show ?thesis by (simp only: key_run)
qed

lemma email_run:
  "(run (tl email_pattern) (True, email) \<noteq> []) =
     (\<exists>l d t. email = l @ ''@'' @ d @ ''.'' @ t \<and> l \<noteq> [] \<and> d \<noteq> [] \<and> t \<noteq> []
        \<and> CHR ''@'' \<notin> set l \<and> CHR ''@'' \<notin> set d \<and> CHR ''@'' \<notin> set t)"
  (is "?L = ?R")
proof
  assume ?L
  then have r1: "run [Plus not_at, One (Lit CHR ''@''), Plus not_at, One (Lit CHR ''.''),
      Plus not_at, EndText] (True, email) \<noteq> []"
    unfolding email_pattern_def list.sel .
  from r1 obtain l t1 where 1: "email = l @ t1" "l \<noteq> []" "list_all (cclass_match not_at) l"
    and r2: "run [One (Lit CHR ''@''), Plus not_at, One (Lit CHR ''.''),
      Plus not_at, EndText] (False, t1) \<noteq> []"
    by (rule run_PlusE)
  from r2 obtain x1 t2 where 2: "t1 = x1 # t2" "cclass_match (Lit CHR ''@'') x1"
    and r3: "run [Plus not_at, One (Lit CHR ''.''), Plus not_at, EndText] (False, t2) \<noteq> []"
    by (rule run_OneE)
  from r3 obtain d t3 where 3: "t2 = d @ t3" "d \<noteq> []" "list_all (cclass_match not_at) d"
    and r4: "run [One (Lit CHR ''.''), Plus not_at, EndText] (False, t3) \<noteq> []"
    by (rule run_PlusE)
  from r4 obtain x2 t4 where 4: "t3 = x2 # t4" "cclass_match (Lit CHR ''.'') x2"
    and r5: "run [Plus not_at, EndText] (False, t4) \<noteq> []"
    by (rule run_OneE)
  from r5 obtain t t5 where 5: "t4 = t @ t5" "t \<noteq> []" "list_all (cclass_match not_at) t"
    and r6: "run [EndText] (False, t5) \<noteq> []"
    by (rule run_PlusE)
  from r6 have 6: "t5 = []" by (rule run_EndTextE)
  have "email = l @ ''@'' @ d @ ''.'' @ t"
    using 1(1) 2 3(1) 4 5(1) 6 by simp
  moreover have "CHR ''@'' \<notin> set l" "CHR ''@'' \<notin> set d" "CHR ''@'' \<notin> set t"
    using 1(3) 3(3) 5(3) by (auto simp: not_at_def list_all_iff)
  ultimately show ?R using 1(2) 3(2) 5(2) by blast
next
  assume ?R
  then obtain l d t where e: "email = l @ ''@'' @ d @ ''.'' @ t"
    and n: "l \<noteq> []" "d \<noteq> []" "t \<noteq> []"
    and a: "CHR ''@'' \<notin> set l" "CHR ''@'' \<notin> set d" "CHR ''@'' \<notin> set t" by blast
  have e': "email = l @ CHR ''@'' # d @ CHR ''.'' # t @ []" using e by simp
  have al: "list_all (cclass_match not_at) l" "list_all (cclass_match not_at) d"
           "list_all (cclass_match not_at) t"
    using a by (auto simp: not_at_def list_all_iff)
  have d: "cclass_match (Lit CHR ''@'') CHR ''@''" "cclass_match (Lit CHR ''.'') CHR ''.''"
    by simp_all
  show ?L
    unfolding email_pattern_def list.sel e'
    by (intro run_PlusI run_OneI run_EndTextI n al d) (simp only: run_Nil)
qed

lemma isValidEmail_iff:
  "isValidEmail email =
     (\<exists>l d t. email = l @ ''@'' @ d @ ''.'' @ t \<and> l \<noteq> [] \<and> d \<noteq> [] \<and> t \<noteq> []
        \<and> CHR ''@'' \<notin> set l \<and> CHR ''@'' \<notin> set d \<and> CHR ''@'' \<notin> set t)"
proof -
  have "email_pattern = BeginText # tl email_pattern"
    by (simp add: email_pattern_def)
  then have "isValidEmail email = (run (tl email_pattern) (True, email) \<noteq> [])"
    unfolding isValidEmail_def using MatchString_anchored by metis
  then show ?thesis by (simp only: email_run)
qed

section \<open>Evaluation of the examples\<close>

lemmas eval_validators =
  isValidLicenseKey_def isValidEmail_def MatchString_def license_key_pattern_def
  email_pattern_def upper_alnum_def not_at_def

lemmas eval_db =
  Database_AddLicense_def Database_DeleteLicense_def Database_GetLicense_def
  insert_license_def insert_audit_def delete_license_def same_license_def
  Begin_def Commit_def Rollback_def restore_def abandoned_def no_faults_def
  empty_db_def demo_db_def demo_license_def duplicate_entry_def

lemmas eval_json =
  sendResponse_def Encode_def VerifyResponse_zero_def
  omitempty_string_def omitempty_bool_def omitempty_time_def

lemma demo_add:
  "Service_AddLicense no_faults 100 empty_db ''ABCD-1234-EFGH-5678'' ''Demo'' ''a@b.com'' ''A B'' None
     = (demo_db, None)"
  by (simp add: Service_AddLicense_def eval_validators eval_db)

section \<open>The verification endpoint\<close>

text \<open>
  C10. For every error the license lookup returns, a lower-level persistence
  failure as much as the absence of the license, the verify endpoint answers
  \<^verbatim>\<open>{"valid": false, "reason": "License not found"}\<close>: the response does
  not tell a persistence failure from a license that is not there.
\<close>

theorem verify_lookup_error:
  "Service_GetLicense fault db key product' = Inl err \<Longrightarrow>
   Handler_VerifyLicense fault now db
       \<lparr>Method = ''POST'', Body = Some \<lparr>req_Key = key, req_Product = product'\<rparr>\<rparr>
     = Json [(''valid'', JBool False), (''reason'', JString ''License not found'')]"
  by (simp add: Handler_VerifyLicense_def eval_json)

theorem verify_lookup_error_witness:
  "Service_GetLicense (Some ''driver: bad connection'') demo_db ''ABCD-1234-EFGH-5678'' ''Demo''
     = Inl (Wrapped ''license query failed'' (DriverError ''driver: bad connection''))
   \<and> Handler_VerifyLicense (Some ''driver: bad connection'') 200 demo_db
       \<lparr>Method = ''POST'', Body = Some \<lparr>req_Key = ''ABCD-1234-EFGH-5678'', req_Product = ''Demo''\<rparr>\<rparr>
     = Json [(''valid'', JBool False), (''reason'', JString ''License not found'')]
   \<and> Service_GetLicense None demo_db ''ABCD-1234-EFGH-5678'' ''Other'' = Inl ErrLicenseNotFound
   \<and> Handler_VerifyLicense None 200 demo_db
       \<lparr>Method = ''POST'', Body = Some \<lparr>req_Key = ''ABCD-1234-EFGH-5678'', req_Product = ''Other''\<rparr>\<rparr>
     = Json [(''valid'', JBool False), (''reason'', JString ''License not found'')]"
proof -
  have a: "Service_GetLicense (Some ''driver: bad connection'') demo_db ''ABCD-1234-EFGH-5678'' ''Demo''
     = Inl (Wrapped ''license query failed'' (DriverError ''driver: bad connection''))"
    by (simp add: Service_GetLicense_def Database_GetLicense_def)
  have b: "Service_GetLicense None demo_db ''ABCD-1234-EFGH-5678'' ''Other'' = Inl ErrLicenseNotFound"
    by (simp add: Service_GetLicense_def eval_db)
  show ?thesis
    using a b verify_lookup_error [OF a, of 200] verify_lookup_error [OF b, of 200] by simp
qed

lemma verify_not_found:
  "find (same_license db k p) (licenses db) = None \<Longrightarrow>
   Handler_VerifyLicense fault now db (verify_post k p)
     = Json [(''valid'', JBool False), (''reason'', JString ''License not found'')]"
  by (cases fault)
     (simp_all add: Handler_VerifyLicense_def verify_post_def Service_GetLicense_def
        Database_GetLicense_def eval_json)

lemma verify_expired:
  "find (same_license db k p) (licenses db) = Some lic \<Longrightarrow> ExpiresAt lic = Some t \<Longrightarrow> t < now \<Longrightarrow>
   Handler_VerifyLicense None now db (verify_post k p)
     = Json [(''valid'', JBool False), (''reason'', JString ''License expired'')]"
  by (simp add: Handler_VerifyLicense_def verify_post_def Service_GetLicense_def
        Database_GetLicense_def eval_json)

lemma verify_valid:
  assumes "find (same_license db k p) (licenses db) = Some lic"
    and "\<forall>t. ExpiresAt lic = Some t \<longrightarrow> now \<le> t"
  shows "\<exists>obj. Handler_VerifyLicense None now db (verify_post k p) = Json obj
      \<and> map_of obj ''valid'' = Some (JBool True)
      \<and> map_of obj ''reason'' = None
      \<and> (Key lic \<noteq> [] \<longrightarrow> map_of obj ''key'' = Some (JString (Key lic)))
      \<and> (Product lic \<noteq> [] \<longrightarrow> map_of obj ''product'' = Some (JString (Product lic)))
      \<and> (\<forall>t. ExpiresAt lic = Some t \<longrightarrow> map_of obj ''expires_at'' = Some (JTime t))
      \<and> (OwnerEmail lic \<noteq> [] \<longrightarrow> map_of obj ''owner_email'' = Some (JString (OwnerEmail lic)))
      \<and> (OwnerName lic \<noteq> [] \<longrightarrow> map_of obj ''owner_name'' = Some (JString (OwnerName lic)))
      \<and> (IsActivated lic \<longrightarrow> map_of obj ''is_activated'' = Some (JBool True))"
proof -
  have h: "Handler_VerifyLicense None now db (verify_post k p) =
     Json (Encode (VerifyResponse_zero
                           \<lparr>Valid := True,
                            resp_Key := Key lic,
                            resp_Product := Product lic,
                            resp_ExpiresAt := ExpiresAt lic,
                            resp_OwnerEmail := OwnerEmail lic,
                            resp_OwnerName := OwnerName lic,
                            resp_IsActivated := IsActivated lic\<rparr>))"
    using assms
    by (cases "ExpiresAt lic")
       (simp_all add: Handler_VerifyLicense_def verify_post_def Service_GetLicense_def
          Database_GetLicense_def sendResponse_def)
  show ?thesis
    unfolding h
    by (rule exI, rule conjI, rule refl)
       (simp add: Encode_def VerifyResponse_zero_def omitempty_string_def omitempty_bool_def
          omitempty_time_def split: option.split)
qed

text \<open>
  C1, amended. For a verification request with key \<open>k\<close> and product \<open>p\<close>: if no
  license matches \<open>(k, p)\<close> the response is \<^verbatim>\<open>{"valid": false, "reason":
  "License not found"}\<close>; if the lookup finds a license whose \<^verbatim>\<open>ExpiresAt\<close> is set
  and lies strictly before the current time, it is \<^verbatim>\<open>{"valid": false,
  "reason": "License expired"}\<close>; otherwise it has \<^verbatim>\<open>valid: true\<close>, no reason,
  and each of \<^verbatim>\<open>key, product, expires_at, owner_email, owner_name,
  is_activated\<close> with the license's value whenever that value is not empty
  (a non-empty string, a set expiry, a true flag). An invalid response has
  exactly the members \<^verbatim>\<open>valid\<close> and \<^verbatim>\<open>reason\<close>.
\<close>

theorem verify_result:
  "(find (same_license db k p) (licenses db) = None \<longrightarrow>
      Handler_VerifyLicense fault now db (verify_post k p)
        = Json [(''valid'', JBool False), (''reason'', JString ''License not found'')])
   \<and> (\<forall>lic t. find (same_license db k p) (licenses db) = Some lic \<and> ExpiresAt lic = Some t \<and> t < now \<longrightarrow>
      Handler_VerifyLicense None now db (verify_post k p)
        = Json [(''valid'', JBool False), (''reason'', JString ''License expired'')])
   \<and> (\<forall>lic. find (same_license db k p) (licenses db) = Some lic
           \<and> (\<forall>t. ExpiresAt lic = Some t \<longrightarrow> now \<le> t) \<longrightarrow>
      (\<exists>obj. Handler_VerifyLicense None now db (verify_post k p) = Json obj
      \<and> map_of obj ''valid'' = Some (JBool True)
      \<and> map_of obj ''reason'' = None
      \<and> (Key lic \<noteq> [] \<longrightarrow> map_of obj ''key'' = Some (JString (Key lic)))
      \<and> (Product lic \<noteq> [] \<longrightarrow> map_of obj ''product'' = Some (JString (Product lic)))
      \<and> (\<forall>t. ExpiresAt lic = Some t \<longrightarrow> map_of obj ''expires_at'' = Some (JTime t))
      \<and> (OwnerEmail lic \<noteq> [] \<longrightarrow> map_of obj ''owner_email'' = Some (JString (OwnerEmail lic)))
      \<and> (OwnerName lic \<noteq> [] \<longrightarrow> map_of obj ''owner_name'' = Some (JString (OwnerName lic)))
      \<and> (IsActivated lic \<longrightarrow> map_of obj ''is_activated'' = Some (JBool True))))"
  using verify_not_found verify_expired verify_valid by blast

lemma find_demo: "find (same_license expiring_db ''ABCD-1234-EFGH-5678'' ''Demo'') (licenses expiring_db)
    = Some (demo_license\<lparr>ExpiresAt := Some 150, IsActivated := True\<rparr>)"
  by (simp add: expiring_db_def eval_db)

theorem verify_result_witness:
  "Handler_VerifyLicense None 200 expiring_db (verify_post ''ABCD-1234-EFGH-5678'' ''Other'')
     = Json [(''valid'', JBool False), (''reason'', JString ''License not found'')]
   \<and> Handler_VerifyLicense None 200 expiring_db (verify_post ''ABCD-1234-EFGH-5678'' ''Demo'')
     = Json [(''valid'', JBool False), (''reason'', JString ''License expired'')]
   \<and> (\<exists>obj. Handler_VerifyLicense None 120 expiring_db (verify_post ''ABCD-1234-EFGH-5678'' ''Demo'')
           = Json obj
         \<and> map_of obj ''valid'' = Some (JBool True)
         \<and> map_of obj ''reason'' = None
         \<and> map_of obj ''key'' = Some (JString ''ABCD-1234-EFGH-5678'')
         \<and> map_of obj ''product'' = Some (JString ''Demo'')
         \<and> map_of obj ''expires_at'' = Some (JTime 150)
         \<and> map_of obj ''owner_email'' = Some (JString ''a@b.com'')
         \<and> map_of obj ''owner_name'' = Some (JString ''A B'')
         \<and> map_of obj ''is_activated'' = Some (JBool True))"
proof -
  have n: "find (same_license expiring_db ''ABCD-1234-EFGH-5678'' ''Other'') (licenses expiring_db) = None"
    by (simp add: expiring_db_def eval_db)
  have 1: "Handler_VerifyLicense None 200 expiring_db (verify_post ''ABCD-1234-EFGH-5678'' ''Other'')
     = Json [(''valid'', JBool False), (''reason'', JString ''License not found'')]"
    using n verify_result [of expiring_db "''ABCD-1234-EFGH-5678''" "''Other''" None 200] by blast
  have 2: "Handler_VerifyLicense None 200 expiring_db (verify_post ''ABCD-1234-EFGH-5678'' ''Demo'')
     = Json [(''valid'', JBool False), (''reason'', JString ''License expired'')]"
    using find_demo verify_result [of expiring_db "''ABCD-1234-EFGH-5678''" "''Demo''" None 200]
    by (simp add: demo_license_def)
  have 3: "(\<exists>obj. Handler_VerifyLicense None 120 expiring_db (verify_post ''ABCD-1234-EFGH-5678'' ''Demo'')
           = Json obj
         \<and> map_of obj ''valid'' = Some (JBool True)
         \<and> map_of obj ''reason'' = None
         \<and> map_of obj ''key'' = Some (JString ''ABCD-1234-EFGH-5678'')
         \<and> map_of obj ''product'' = Some (JString ''Demo'')
         \<and> map_of obj ''expires_at'' = Some (JTime 150)
         \<and> map_of obj ''owner_email'' = Some (JString ''a@b.com'')
         \<and> map_of obj ''owner_name'' = Some (JString ''A B'')
         \<and> map_of obj ''is_activated'' = Some (JBool True))"
    using find_demo verify_result [of expiring_db "''ABCD-1234-EFGH-5678''" "''Demo''" None 120]
    by (simp add: demo_license_def)
  show ?thesis using 1 2 3 by blast
qed

text \<open>
  C1 as stated fails on the reason: with no license at all the response says
  \<^verbatim>\<open>License not found\<close>, not \<^verbatim>\<open>not found\<close>.
\<close>

theorem verify_reason_counterexample:
  "find (same_license empty_db ''ABCD-1234-EFGH-5678'' ''Demo'') (licenses empty_db) = None
   \<and> Handler_VerifyLicense None 0 empty_db (verify_post ''ABCD-1234-EFGH-5678'' ''Demo'')
       = Json [(''valid'', JBool False), (''reason'', JString ''License not found'')]
   \<and> Handler_VerifyLicense None 0 empty_db (verify_post ''ABCD-1234-EFGH-5678'' ''Demo'')
       \<noteq> Json [(''valid'', JBool False), (''reason'', JString ''not found'')]"
  by (simp add: Handler_VerifyLicense_def verify_post_def Service_GetLicense_def eval_db eval_json)

section \<open>The account service\<close>

text \<open>
  C6. In every state of the accounts, a login with an e-mail that matches no
  account and a login with the e-mail of an account but a wrong password
  return the same error, \<^verbatim>\<open>errors.New\<close> of one fixed message, and leave the
  database as it was: the error does not tell which check failed.
\<close>

theorem login_errors_indistinguishable:
  assumes "find (\<lambda>a. collation db (Email a) email1) (Accounts db) = None"
    and "find (\<lambda>a. collation db (Email a) email2) (Accounts db) = Some acc"
    and "\<not> CheckPasswordHash password2 (PasswordHash acc)"
  shows "Login CheckPasswordHash q1 u1 t1 db email1 password1
           = (db, Inl (ErrorsNew wrong_email_or_password))
       \<and> Login CheckPasswordHash None u2 t2 db email2 password2
           = (db, Inl (ErrorsNew wrong_email_or_password))"
  using assms by (cases q1) (simp_all add: Login_def)

theorem login_errors_indistinguishable_witness:
  "Login demo_check None None ''2026-11-01 10:00:00'' accounts_db ''nobody@example.com'' ''Passw0rd!''
     = (accounts_db, Inl (ErrorsNew wrong_email_or_password))
   \<and> Login demo_check None None ''2026-11-01 10:00:00'' accounts_db ''jane@example.com'' ''guess''
     = (accounts_db, Inl (ErrorsNew wrong_email_or_password))
   \<and> snd (Login demo_check None None ''2026-11-01 10:00:00'' accounts_db ''jane@example.com'' ''Passw0rd!'')
     = Inr (hd (Accounts accounts_db))"
proof -
  have a: "find (\<lambda>a. collation accounts_db (Email a) ''nobody@example.com'') (Accounts accounts_db) = None"
    by (simp add: accounts_db_def empty_db_def)
  have b: "find (\<lambda>a. collation accounts_db (Email a) ''jane@example.com'') (Accounts accounts_db)
             = Some (hd (Accounts accounts_db))"
    by (simp add: accounts_db_def empty_db_def)
  have c: "\<not> demo_check ''guess'' (PasswordHash (hd (Accounts accounts_db)))"
    by (simp add: accounts_db_def empty_db_def demo_check_def)
  have d: "snd (Login demo_check None None ''2026-11-01 10:00:00'' accounts_db ''jane@example.com'' ''Passw0rd!'')
     = Inr (hd (Accounts accounts_db))"
    by (simp add: Login_def accounts_db_def empty_db_def demo_check_def)
  show ?thesis
    using a b c d
      login_errors_indistinguishable [where db = accounts_db and CheckPasswordHash = demo_check
        and ?email1.0 = "''nobody@example.com''" and ?email2.0 = "''jane@example.com''"
        and acc = "hd (Accounts accounts_db)" and ?password2.0 = "''guess''"
        and ?q1.0 = None and ?u1.0 = None and ?u2.0 = None
        and ?t1.0 = "''2026-11-01 10:00:00''" and ?t2.0 = "''2026-11-01 10:00:00''"
        and ?password1.0 = "''Passw0rd!''"]
    by simp
qed

text \<open>Every failed login, a failed query included, carries that one error.\<close>

lemma login_failure_content:
  "Login CheckPasswordHash q u t db email password = (db', Inl err) \<Longrightarrow>
     err = ErrorsNew wrong_email_or_password \<and> db' = db"
  by (auto simp: Login_def split: option.splits if_splits)

text \<open>
  C7. Whenever the password and its confirmation differ, \<^verbatim>\<open>Register\<close> fails
  with the password-mismatch error before it hashes or writes anything: the
  database, and so the table \<^verbatim>\<open>Accounts\<close>, is unchanged.
\<close>

theorem register_password_mismatch:
  "password \<noteq> passwordRepeat \<Longrightarrow>
   Register HashPassword fault now_text db username email password passwordRepeat
     = (db, Some (ErrorsNew passwords_differ))"
  by (simp add: Register_def)

theorem register_password_mismatch_witness:
  "''Passw0rd!'' \<noteq> ''Passw0rd?''
   \<and> Register demo_hash None ''2026-11-01 10:00:00'' accounts_db ''joe'' ''joe@example.com''
        ''Passw0rd!'' ''Passw0rd?''
     = (accounts_db, Some (ErrorsNew passwords_differ))
   \<and> Accounts (fst (Register demo_hash None ''2026-11-01 10:00:00'' accounts_db ''joe''
        ''joe@example.com'' ''Passw0rd!'' ''Passw0rd!'')) \<noteq> Accounts accounts_db"
proof -
  have n: "''Passw0rd!'' \<noteq> ''Passw0rd?''" by simp
  have w: "Accounts (fst (Register demo_hash None ''2026-11-01 10:00:00'' accounts_db ''joe''
        ''joe@example.com'' ''Passw0rd!'' ''Passw0rd!'')) \<noteq> Accounts accounts_db"
    by (simp add: Register_def demo_hash_def insert_account_def accounts_db_def empty_db_def)
  show ?thesis
    using n w register_password_mismatch [OF n, of demo_hash None "''2026-11-01 10:00:00''" accounts_db "''joe''" "''joe@example.com''"]
    by simp
qed

section \<open>License mutations and the audit log\<close>

lemma tables_Rollback [simp]:
  "licenses (Rollback snap w) = licenses snap"
  "audit_log (Rollback snap w) = audit_log snap"
  "Accounts (Rollback snap w) = Accounts snap"
  by (simp_all add: Rollback_def restore_def)

lemma tables_abandoned [simp]:
  "licenses (abandoned snap w) = licenses snap"
  "audit_log (abandoned snap w) = audit_log snap"
  "Accounts (abandoned snap w) = Accounts snap"
  by (simp_all add: abandoned_def restore_def)

lemma tables_Begin [simp]:
  "licenses (Begin db) = licenses db"
  "audit_log (Begin db) = audit_log db"
  "Accounts (Begin db) = Accounts db"
  "collation (Begin db) = collation db"
  by (simp_all add: Begin_def)

lemma same_license_Begin [simp]: "same_license (Begin db) = same_license db"
  by (rule ext)+ (simp add: same_license_def)

lemma insert_license_Inr:
  "insert_license fault w key p ex oe on = Inr w' \<Longrightarrow>
     licenses w' = licenses w @ [\<lparr>ID = license_seq w, Key = key, Product = p, ExpiresAt = ex,
                                   OwnerEmail = oe, OwnerName = on, IsActivated = False\<rparr>]
     \<and> audit_log w' = audit_log w \<and> Accounts w' = Accounts w
     \<and> fault = None \<and> \<not> list_ex (same_license w key p) (licenses w)"
  by (auto simp: insert_license_def split: option.splits if_splits)

lemma insert_audit_Inr:
  "insert_audit fault now w act key p det = Inr w' \<Longrightarrow>
     audit_log w' = audit_log w @ [\<lparr>action = act, license_key = key, product = p,
                                     changed_at = now, details = det\<rparr>]
     \<and> licenses w' = licenses w \<and> Accounts w' = Accounts w \<and> fault = None"
  by (auto simp: insert_audit_def split: option.splits)

lemma insert_audit_Inl:
  "insert_audit fault now w act key p det = Inl err \<Longrightarrow> \<exists>e. fault = Some e \<and> err = DriverError e"
  by (auto simp: insert_audit_def split: option.splits)

lemma delete_license_Inr:
  "delete_license fault w key p = Inr (w', n) \<Longrightarrow>
     licenses w' = filter (\<lambda>r. \<not> same_license w key p r) (licenses w)
     \<and> n = length (filter (same_license w key p) (licenses w))
     \<and> audit_log w' = audit_log w \<and> Accounts w' = Accounts w \<and> fault = None"
  by (auto simp: delete_license_def split: option.splits)

lemma add_license_atomic:
  "(snd (Database_AddLicense f now db key p ex oe on) = None
      \<and> licenses (fst (Database_AddLicense f now db key p ex oe on))
          = licenses db @ [\<lparr>ID = license_seq db, Key = key, Product = p, ExpiresAt = ex,
                             OwnerEmail = oe, OwnerName = on, IsActivated = False\<rparr>]
      \<and> audit_log (fst (Database_AddLicense f now db key p ex oe on))
          = audit_log db @ [\<lparr>action = ''ADD'', license_key = key, product = p, changed_at = now,
                              details = Some (''Owner: '' @ on @ '' ('' @ oe @ '')'')\<rparr>])
   \<or> (snd (Database_AddLicense f now db key p ex oe on) \<noteq> None
      \<and> licenses (fst (Database_AddLicense f now db key p ex oe on)) = licenses db
      \<and> audit_log (fst (Database_AddLicense f now db key p ex oe on)) = audit_log db)"
  unfolding Database_AddLicense_def
  by (auto split: option.splits sum.splits dest!: insert_license_Inr insert_audit_Inr
      simp: Begin_def Commit_def restore_def)

lemma delete_license_atomic:
  "(snd (Database_DeleteLicense f now db key p) = None
      \<and> licenses (fst (Database_DeleteLicense f now db key p))
          = filter (\<lambda>r. \<not> same_license db key p r) (licenses db)
      \<and> list_ex (same_license db key p) (licenses db)
      \<and> audit_log (fst (Database_DeleteLicense f now db key p))
          = audit_log db @ [\<lparr>action = ''DELETE'', license_key = key, product = p,
                              changed_at = now, details = None\<rparr>])
   \<or> (snd (Database_DeleteLicense f now db key p) \<noteq> None
      \<and> licenses (fst (Database_DeleteLicense f now db key p)) = licenses db
      \<and> audit_log (fst (Database_DeleteLicense f now db key p)) = audit_log db)"
  unfolding Database_DeleteLicense_def
  by (auto split: option.splits sum.splits prod.splits dest!: delete_license_Inr insert_audit_Inr
      simp: list_ex_iff filter_empty_conv Commit_def restore_def)

lemma audit_log_add:
  "\<exists>new. audit_log (fst (Database_AddLicense f now db key p ex oe on)) = audit_log db @ new"
  using add_license_atomic [of f now db key p ex oe on] by auto

lemma audit_log_delete:
  "\<exists>new. audit_log (fst (Database_DeleteLicense f now db key p)) = audit_log db @ new"
  using delete_license_atomic [of f now db key p] by auto

lemma audit_log_register:
  "audit_log (fst (Register hp fault now_text db u e pw pw2)) = audit_log db"
  by (simp add: Register_def insert_account_def split: sum.splits option.splits)

lemma audit_log_login:
  "audit_log (fst (Login chk q u now_text db e pw)) = audit_log db"
  by (simp add: Login_def update_last_login_def split: option.splits)

lemma audit_log_exec: "\<exists>new. audit_log (exec hp chk db op) = audit_log db @ new"
proof (cases op)
  case (AddLicenseOp f now key p oe on ex)
  then show ?thesis
    using audit_log_add [of f now db key p ex oe on] by (simp add: Service_AddLicense_def)
next
  case (DeleteLicenseOp f now key p)
  then show ?thesis
    using audit_log_delete [of f now db key p] by (simp add: Service_DeleteLicense_def)
next
  case RegisterOp
  then show ?thesis by (simp add: audit_log_register)
next
  case LoginOp
  then show ?thesis by (simp add: audit_log_login)
qed

lemma audit_log_exec_all: "\<exists>new. audit_log (exec_all hp chk db ops) = audit_log db @ new"
proof (induction ops arbitrary: db)
  case Nil
  then show ?case by (simp add: exec_all_def)
next
  case (Cons op ops)
  obtain n1 where 1: "audit_log (exec hp chk db op) = audit_log db @ n1"
    using audit_log_exec by blast
  obtain n2 where 2: "audit_log (exec_all hp chk (exec hp chk db op) ops) = audit_log (exec hp chk db op) @ n2"
    using Cons.IH by blast
  show ?case using 1 2 by (simp add: exec_all_def)
qed

text \<open>
  C5. \<^verbatim>\<open>AddLicense\<close> and \<^verbatim>\<open>DeleteLicense\<close> change the table \<^verbatim>\<open>licenses\<close> and
  append their \<^verbatim>\<open>ADD\<close> or \<^verbatim>\<open>DELETE\<close> entry to \<^verbatim>\<open>audit_log\<close> in one
  transaction: whatever driver calls fail, either the operation succeeds and
  both took effect (the row inserted or deleted, the one audit entry
  appended), or it returns an error and both tables are as before. And after
  any run of the writing operations the entries the audit log had are still
  there, unchanged and in place: entries are only ever appended.
\<close>

theorem license_mutation_atomic:
  "((snd (Database_AddLicense f now db key p ex oe on) = None
      \<and> licenses (fst (Database_AddLicense f now db key p ex oe on))
          = licenses db @ [\<lparr>ID = license_seq db, Key = key, Product = p, ExpiresAt = ex,
                             OwnerEmail = oe, OwnerName = on, IsActivated = False\<rparr>]
      \<and> audit_log (fst (Database_AddLicense f now db key p ex oe on))
          = audit_log db @ [\<lparr>action = ''ADD'', license_key = key, product = p, changed_at = now,
                              details = Some (''Owner: '' @ on @ '' ('' @ oe @ '')'')\<rparr>])
   \<or> (snd (Database_AddLicense f now db key p ex oe on) \<noteq> None
      \<and> licenses (fst (Database_AddLicense f now db key p ex oe on)) = licenses db
      \<and> audit_log (fst (Database_AddLicense f now db key p ex oe on)) = audit_log db))
  \<and> ((snd (Database_DeleteLicense f now db key p) = None
      \<and> licenses (fst (Database_DeleteLicense f now db key p))
          = filter (\<lambda>r. \<not> same_license db key p r) (licenses db)
      \<and> list_ex (same_license db key p) (licenses db)
      \<and> audit_log (fst (Database_DeleteLicense f now db key p))
          = audit_log db @ [\<lparr>action = ''DELETE'', license_key = key, product = p,
                              changed_at = now, details = None\<rparr>])
   \<or> (snd (Database_DeleteLicense f now db key p) \<noteq> None
      \<and> licenses (fst (Database_DeleteLicense f now db key p)) = licenses db
      \<and> audit_log (fst (Database_DeleteLicense f now db key p)) = audit_log db))
  \<and> take (length (audit_log db)) (audit_log (exec_all hp chk db ops)) = audit_log db"
proof -
  obtain new where "audit_log (exec_all hp chk db ops) = audit_log db @ new"
    using audit_log_exec_all by blast
  then have "take (length (audit_log db)) (audit_log (exec_all hp chk db ops)) = audit_log db"
    by simp
  then show ?thesis
    using add_license_atomic [of f now db key p ex oe on] delete_license_atomic [of f now db key p]
    by blast
qed

lemma demo_delete_stale:
  "Database_DeleteLicense audit_insert_fails 300 demo_db ''ABCD-1234-EFGH-5678'' ''Demo''
     = (demo_db, Some (Wrapped ''audit log insert failed'' (DriverError ''driver: bad connection'')))"
  by (simp add: audit_insert_fails_def eval_db)

lemma demo_delete:
  "Database_DeleteLicense no_faults 300 demo_db ''ABCD-1234-EFGH-5678'' ''Demo''
     = (demo_db\<lparr>licenses := [],
                audit_log := audit_log demo_db @
                  [\<lparr>action = ''DELETE'', license_key = ''ABCD-1234-EFGH-5678'', product = ''Demo'',
                    changed_at = 300, details = None\<rparr>]\<rparr>, None)"
  by (simp add: eval_db)

theorem license_mutation_atomic_witness:
  "Database_AddLicense no_faults 100 empty_db ''ABCD-1234-EFGH-5678'' ''Demo'' None ''a@b.com'' ''A B''
     = (demo_db, None)
   \<and> licenses demo_db = licenses empty_db @ [demo_license]
   \<and> length (audit_log demo_db) = Suc (length (audit_log empty_db))
   \<and> snd (Database_DeleteLicense audit_insert_fails 300 demo_db ''ABCD-1234-EFGH-5678'' ''Demo'') \<noteq> None
   \<and> licenses (fst (Database_DeleteLicense audit_insert_fails 300 demo_db ''ABCD-1234-EFGH-5678'' ''Demo''))
       = [demo_license]
   \<and> audit_log (fst (Database_DeleteLicense audit_insert_fails 300 demo_db ''ABCD-1234-EFGH-5678'' ''Demo''))
       = audit_log demo_db
   \<and> take (length (audit_log demo_db))
        (audit_log (exec_all demo_hash demo_check demo_db
           [DeleteLicenseOp audit_insert_fails 300 ''ABCD-1234-EFGH-5678'' ''Demo'',
            DeleteLicenseOp no_faults 300 ''ABCD-1234-EFGH-5678'' ''Demo'',
            RegisterOp None ''2026-11-01 10:00:00'' ''joe'' ''joe@example.com'' ''pw'' ''pw'']))
       = audit_log demo_db
   \<and> length (audit_log (exec_all demo_hash demo_check demo_db
           [DeleteLicenseOp audit_insert_fails 300 ''ABCD-1234-EFGH-5678'' ''Demo'',
            DeleteLicenseOp no_faults 300 ''ABCD-1234-EFGH-5678'' ''Demo'',
            RegisterOp None ''2026-11-01 10:00:00'' ''joe'' ''joe@example.com'' ''pw'' ''pw''])) = 2"
proof -
  have a: "Database_AddLicense no_faults 100 empty_db ''ABCD-1234-EFGH-5678'' ''Demo'' None ''a@b.com'' ''A B''
     = (demo_db, None)"
    by (simp add: eval_db)
  have l: "length (audit_log (exec_all demo_hash demo_check demo_db
           [DeleteLicenseOp audit_insert_fails 300 ''ABCD-1234-EFGH-5678'' ''Demo'',
            DeleteLicenseOp no_faults 300 ''ABCD-1234-EFGH-5678'' ''Demo'',
            RegisterOp None ''2026-11-01 10:00:00'' ''joe'' ''joe@example.com'' ''pw'' ''pw''])) = 2"
    by (simp add: exec_all_def Service_DeleteLicense_def demo_delete_stale demo_delete
          Register_def demo_hash_def insert_account_def) (simp add: demo_db_def)
  show ?thesis
    using a l demo_delete_stale
      license_mutation_atomic [of audit_insert_fails 300 demo_db "''ABCD-1234-EFGH-5678''" "''Demo''"
        None "''a@b.com''" "''A B''" demo_hash demo_check
        "[DeleteLicenseOp audit_insert_fails 300 ''ABCD-1234-EFGH-5678'' ''Demo'',
            DeleteLicenseOp no_faults 300 ''ABCD-1234-EFGH-5678'' ''Demo'',
            RegisterOp None ''2026-11-01 10:00:00'' ''joe'' ''joe@example.com'' ''pw'' ''pw'']"]
    by (simp add: demo_db_def empty_db_def)
qed

lemma open_tx_simps [simp]:
  "open_tx (Begin db) = Suc (open_tx db)"
  "open_tx (Rollback snap w) = open_tx w - 1"
  "open_tx (abandoned snap w) = open_tx w"
  "open_tx (fst (Commit fault snap w)) = open_tx w - 1"
  by (simp_all add: Begin_def Rollback_def abandoned_def restore_def Commit_def split: option.splits)

lemma delete_absent_tables:
  "\<not> list_ex (same_license db key p) (licenses db) \<Longrightarrow>
     audit_log (fst (Database_DeleteLicense f now db key p)) = audit_log db
   \<and> licenses (fst (Database_DeleteLicense f now db key p)) = licenses db
   \<and> snd (Database_DeleteLicense f now db key p) \<noteq> None"
  using delete_license_atomic [of f now db key p] by auto

lemma delete_absent_not_found:
  "\<not> list_ex (same_license db key p) (licenses db) \<Longrightarrow>
   begin_fault f = None \<Longrightarrow> stmt_fault f = None \<Longrightarrow> rows_fault f = None \<Longrightarrow>
     snd (Database_DeleteLicense f now db key p) = Some ErrLicenseNotFound"
  by (simp add: Database_DeleteLicense_def delete_license_def list_ex_iff filter_empty_conv)

text \<open>
  On that path the function returns without \<^verbatim>\<open>Commit\<close> or \<^verbatim>\<open>Rollback\<close>: the
  transaction stays open.
\<close>

lemma delete_absent_leaves_tx_open:
  "\<not> list_ex (same_license db key p) (licenses db) \<Longrightarrow>
   begin_fault f = None \<Longrightarrow> stmt_fault f = None \<Longrightarrow> rows_fault f = None \<Longrightarrow>
     open_tx (fst (Database_DeleteLicense f now db key p)) = Suc (open_tx db)"
  by (simp add: Database_DeleteLicense_def delete_license_def list_ex_iff filter_empty_conv)

lemma delete_audit_failure_tables:
  "audit_fault f = Some e \<Longrightarrow>
     licenses (fst (Database_DeleteLicense f now db key p)) = licenses db
   \<and> audit_log (fst (Database_DeleteLicense f now db key p)) = audit_log db
   \<and> snd (Database_DeleteLicense f now db key p) \<noteq> None"
  using delete_license_atomic [of f now db key p]
  by (auto simp: Database_DeleteLicense_def insert_audit_def split: option.splits sum.splits prod.splits if_splits)

lemma delete_audit_failure_error:
  "audit_fault f = Some e \<Longrightarrow> list_ex (same_license db key p) (licenses db) \<Longrightarrow>
   begin_fault f = None \<Longrightarrow> stmt_fault f = None \<Longrightarrow> rows_fault f = None \<Longrightarrow>
     snd (Database_DeleteLicense f now db key p)
       = Some (Wrapped ''audit log insert failed'' (DriverError e))
   \<and> open_tx (fst (Database_DeleteLicense f now db key p)) = open_tx db"
  by (simp add: Database_DeleteLicense_def delete_license_def insert_audit_def list_ex_iff
      filter_empty_conv)

text \<open>
  C4. When no license matches \<open>(key, product)\<close>, \<^verbatim>\<open>DeleteLicense\<close> fails and
  appends no audit entry (the tables are as before), and the error is
  \<open>ErrLicenseNotFound\<close> whenever the driver carried out \<^verbatim>\<open>Begin\<close>, the
  \<^verbatim>\<open>DELETE\<close> and \<^verbatim>\<open>RowsAffected\<close>. Whenever the audit insert fails, the
  deletion is rolled back: the license rows and the audit log are as before,
  the caller gets the wrapped insert error, and the transaction is ended by
  \<^verbatim>\<open>Rollback\<close>, so that no more transactions are open than before the call.
\<close>

theorem delete_license_not_found_and_rollback:
  "(\<not> list_ex (same_license db key p) (licenses db) \<longrightarrow>
       audit_log (fst (Database_DeleteLicense f now db key p)) = audit_log db
     \<and> licenses (fst (Database_DeleteLicense f now db key p)) = licenses db
     \<and> snd (Database_DeleteLicense f now db key p) \<noteq> None
     \<and> (begin_fault f = None \<and> stmt_fault f = None \<and> rows_fault f = None \<longrightarrow>
          snd (Database_DeleteLicense f now db key p) = Some ErrLicenseNotFound))
   \<and> (\<forall>e. audit_fault f = Some e \<longrightarrow>
       licenses (fst (Database_DeleteLicense f now db key p)) = licenses db
     \<and> audit_log (fst (Database_DeleteLicense f now db key p)) = audit_log db
     \<and> snd (Database_DeleteLicense f now db key p) \<noteq> None
     \<and> (list_ex (same_license db key p) (licenses db)
          \<and> begin_fault f = None \<and> stmt_fault f = None \<and> rows_fault f = None \<longrightarrow>
          snd (Database_DeleteLicense f now db key p)
            = Some (Wrapped ''audit log insert failed'' (DriverError e))
          \<and> open_tx (fst (Database_DeleteLicense f now db key p)) = open_tx db))"
  using delete_absent_tables [of db key p f now] delete_absent_not_found [of db key p f now]
    delete_audit_failure_tables [of f _ now db key p] delete_audit_failure_error [of f _ db key p now]
  by blast

theorem delete_license_not_found_and_rollback_witness:
  "\<not> list_ex (same_license demo_db ''ABCD-1234-EFGH-5678'' ''Other'') (licenses demo_db)
   \<and> snd (Database_DeleteLicense no_faults 300 demo_db ''ABCD-1234-EFGH-5678'' ''Other'')
       = Some ErrLicenseNotFound
   \<and> audit_log (fst (Database_DeleteLicense no_faults 300 demo_db ''ABCD-1234-EFGH-5678'' ''Other''))
       = audit_log demo_db
   \<and> list_ex (same_license demo_db ''ABCD-1234-EFGH-5678'' ''Demo'') (licenses demo_db)
   \<and> audit_fault audit_insert_fails = Some ''driver: bad connection''
   \<and> snd (Database_DeleteLicense audit_insert_fails 300 demo_db ''ABCD-1234-EFGH-5678'' ''Demo'')
       = Some (Wrapped ''audit log insert failed'' (DriverError ''driver: bad connection''))
   \<and> licenses (fst (Database_DeleteLicense audit_insert_fails 300 demo_db ''ABCD-1234-EFGH-5678'' ''Demo''))
       = [demo_license]
   \<and> open_tx (fst (Database_DeleteLicense audit_insert_fails 300 demo_db ''ABCD-1234-EFGH-5678'' ''Demo''))
       = open_tx demo_db
   \<and> licenses (fst (Database_DeleteLicense no_faults 300 demo_db ''ABCD-1234-EFGH-5678'' ''Demo''))
       = []"
proof -
  have a: "\<not> list_ex (same_license demo_db ''ABCD-1234-EFGH-5678'' ''Other'') (licenses demo_db)"
    by (simp add: eval_db)
  have b: "list_ex (same_license demo_db ''ABCD-1234-EFGH-5678'' ''Demo'') (licenses demo_db)"
    by (simp add: eval_db)
  have c: "audit_fault audit_insert_fails = Some ''driver: bad connection''"
    "begin_fault audit_insert_fails = None" "stmt_fault audit_insert_fails = None" "rows_fault audit_insert_fails = None"
    "begin_fault no_faults = None" "stmt_fault no_faults = None" "rows_fault no_faults = None"
    by (simp_all add: audit_insert_fails_def no_faults_def)
  have d: "licenses demo_db = [demo_license]" by (simp add: demo_db_def)
  have e: "licenses (fst (Database_DeleteLicense no_faults 300 demo_db ''ABCD-1234-EFGH-5678'' ''Demo''))
       = []" by (simp add: demo_delete)
  show ?thesis
    using a b c d e
      delete_license_not_found_and_rollback [of demo_db "''ABCD-1234-EFGH-5678''" "''Other''" no_faults 300]
      delete_license_not_found_and_rollback [of demo_db "''ABCD-1234-EFGH-5678''" "''Demo''" audit_insert_fails 300]
    by simp
qed

section \<open>Adding a license\<close>

text \<open>
  The text of the driver's duplicate-entry error is never the text that
  \<^verbatim>\<open>isDuplicateKeyError\<close> compares with.
\<close>

lemma duplicate_entry_text [simp]:
  "duplicate_entry key p \<noteq> ''Error 1062: Duplicate entry''"
  by (simp add: duplicate_entry_def)

lemma duplicate_entry_not_recognised:
  "\<not> isDuplicateKeyError (Some (DriverError (duplicate_entry key p)))"
  by simp

lemma duplicate_add_general:
  assumes "list_ex (same_license db key p) (licenses db)"
    and "begin_fault f = None" and "stmt_fault f = None"
  shows "snd (Database_AddLicense f now db key p ex oe on)
           = Some (Wrapped ''license insert failed'' (DriverError (duplicate_entry key p)))
       \<and> licenses (fst (Database_AddLicense f now db key p ex oe on)) = licenses db
       \<and> audit_log (fst (Database_AddLicense f now db key p ex oe on)) = audit_log db"
  using assms
  by (simp add: Database_AddLicense_def insert_license_def duplicate_entry_not_recognised)

text \<open>
  C3, on the code. Adding the demo license a second time, with every driver
  call going through: the insert violates the unique key, the driver's error
  text is not the one \<^verbatim>\<open>isDuplicateKeyError\<close> expects, and the caller gets the
  wrapped insert error, not \<open>ErrDuplicateKey\<close>. The table keeps its one row
  for the pair.
\<close>

theorem duplicate_add_is_generic_failure:
  "Service_AddLicense no_faults 200 demo_db ''ABCD-1234-EFGH-5678'' ''Demo'' ''a@b.com'' ''A B'' None
     = (demo_db,
        Some (Wrapped ''license insert failed''
               (DriverError (duplicate_entry ''ABCD-1234-EFGH-5678'' ''Demo''))))
   \<and> snd (Service_AddLicense no_faults 200 demo_db ''ABCD-1234-EFGH-5678'' ''Demo'' ''a@b.com'' ''A B'' None)
       \<noteq> Some ErrDuplicateKey
   \<and> length (filter (same_license demo_db ''ABCD-1234-EFGH-5678'' ''Demo'')
        (licenses (fst (Service_AddLicense no_faults 200 demo_db ''ABCD-1234-EFGH-5678'' ''Demo''
           ''a@b.com'' ''A B'' None)))) = 1"
proof -
  have v: "isValidLicenseKey ''ABCD-1234-EFGH-5678''" "isValidEmail ''a@b.com''"
    by (simp_all add: eval_validators)
  have d: "Database_AddLicense no_faults 200 demo_db ''ABCD-1234-EFGH-5678'' ''Demo'' None ''a@b.com'' ''A B''
     = (demo_db,
        Some (Wrapped ''license insert failed''
               (DriverError (duplicate_entry ''ABCD-1234-EFGH-5678'' ''Demo''))))"
    by (simp add: Database_AddLicense_def insert_license_def duplicate_entry_not_recognised
        no_faults_def same_license_def Rollback_def restore_def Begin_def demo_db_def demo_license_def)
  show ?thesis
    unfolding Service_AddLicense_def using v d
    by (simp add: demo_db_def demo_license_def same_license_def)
qed

lemma Database_AddLicense_errors:
  "snd (Database_AddLicense f now db key p ex oe on) \<noteq> Some ErrInvalidLicenseKey"
  "snd (Database_AddLicense f now db key p ex oe on) \<noteq> Some ErrInvalidEmail"
  by (auto simp: Database_AddLicense_def insert_license_def insert_audit_def Commit_def
      split: option.splits sum.splits if_splits)

text \<open>
  C2. \<^verbatim>\<open>AddLicense\<close> returns \<open>ErrInvalidLicenseKey\<close> exactly when the key is
  not four groups of four uppercase letters or digits joined by hyphens, which
  is what the pattern \<^verbatim>\<open>^[A-Z0-9]{4}-[A-Z0-9]{4}-[A-Z0-9]{4}-[A-Z0-9]{4}$\<close>
  accepts; and when it does, the database is as before: the error is returned
  before any database call.
\<close>

theorem add_license_invalid_key:
  "(snd (Service_AddLicense f now db key p oe on ex) = Some ErrInvalidLicenseKey)
     = (\<not> (\<exists>g1 g2 g3 g4. key = g1 @ ''-'' @ g2 @ ''-'' @ g3 @ ''-'' @ g4
              \<and> group4 g1 \<and> group4 g2 \<and> group4 g3 \<and> group4 g4))
   \<and> (snd (Service_AddLicense f now db key p oe on ex) = Some ErrInvalidLicenseKey
        \<longrightarrow> fst (Service_AddLicense f now db key p oe on ex) = db)"
  unfolding isValidLicenseKey_iff [symmetric]
  using Database_AddLicense_errors(1) [of f now db key p ex oe on]
  by (simp add: Service_AddLicense_def)

theorem add_license_invalid_key_witness:
  "snd (Service_AddLicense no_faults 100 empty_db ''abcd-1234-efgh-5678'' ''Demo'' ''a@b.com'' ''A B'' None)
     = Some ErrInvalidLicenseKey
   \<and> fst (Service_AddLicense no_faults 100 empty_db ''abcd-1234-efgh-5678'' ''Demo'' ''a@b.com'' ''A B'' None)
     = empty_db
   \<and> \<not> (\<exists>g1 g2 g3 g4. ''abcd-1234-efgh-5678'' = g1 @ ''-'' @ g2 @ ''-'' @ g3 @ ''-'' @ g4
              \<and> group4 g1 \<and> group4 g2 \<and> group4 g3 \<and> group4 g4)
   \<and> snd (Service_AddLicense no_faults 100 empty_db ''ABCD-1234-EFGH-5678'' ''Demo'' ''a@b.com'' ''A B'' None)
     = None
   \<and> (\<exists>g1 g2 g3 g4. ''ABCD-1234-EFGH-5678'' = g1 @ ''-'' @ g2 @ ''-'' @ g3 @ ''-'' @ g4
              \<and> group4 g1 \<and> group4 g2 \<and> group4 g3 \<and> group4 g4)"
proof -
  have a: "snd (Service_AddLicense no_faults 100 empty_db ''abcd-1234-efgh-5678'' ''Demo'' ''a@b.com'' ''A B'' None)
     = Some ErrInvalidLicenseKey"
    by (simp add: Service_AddLicense_def eval_validators)
  have b: "snd (Service_AddLicense no_faults 100 empty_db ''ABCD-1234-EFGH-5678'' ''Demo'' ''a@b.com'' ''A B'' None)
     = None"
    by (simp add: demo_add)
  note t1 = add_license_invalid_key [of no_faults 100 empty_db "''abcd-1234-efgh-5678''" "''Demo''" "''a@b.com''" "''A B''" None]
  note t2 = add_license_invalid_key [of no_faults 100 empty_db "''ABCD-1234-EFGH-5678''" "''Demo''" "''a@b.com''" "''A B''" None]
  have c: "fst (Service_AddLicense no_faults 100 empty_db ''abcd-1234-efgh-5678'' ''Demo'' ''a@b.com'' ''A B'' None)
     = empty_db"
    using t1 a by blast
  have d: "\<not> (\<exists>g1 g2 g3 g4. ''abcd-1234-efgh-5678'' = g1 @ ''-'' @ g2 @ ''-'' @ g3 @ ''-'' @ g4
              \<and> group4 g1 \<and> group4 g2 \<and> group4 g3 \<and> group4 g4)"
    using t1 a by blast
  have n: "snd (Service_AddLicense no_faults 100 empty_db ''ABCD-1234-EFGH-5678'' ''Demo'' ''a@b.com'' ''A B'' None)
     \<noteq> Some ErrInvalidLicenseKey"
    using b by simp
  have e: "\<exists>g1 g2 g3 g4. ''ABCD-1234-EFGH-5678'' = g1 @ ''-'' @ g2 @ ''-'' @ g3 @ ''-'' @ g4
              \<and> group4 g1 \<and> group4 g2 \<and> group4 g3 \<and> group4 g4"
    using t2 n by blast
  show ?thesis
    using a b c d e by (intro conjI)
qed

text \<open>
  C8, amended. With a valid key, \<^verbatim>\<open>AddLicense\<close> returns \<open>ErrInvalidEmail\<close>
  exactly when the e-mail is not of the form \<^verbatim>\<open>local@domain.tld\<close>: one \<^verbatim>\<open>@\<close>
  only, at least one character before it, and after it a \<^verbatim>\<open>.\<close> with at
  least one character between the \<^verbatim>\<open>@\<close> and that \<^verbatim>\<open>.\<close> and at least one
  character after it.
\<close>

theorem add_license_invalid_email:
  "isValidLicenseKey key \<Longrightarrow>
   (snd (Service_AddLicense f now db key p email on ex) = Some ErrInvalidEmail)
     = (\<not> (\<exists>l d t. email = l @ ''@'' @ d @ ''.'' @ t \<and> l \<noteq> [] \<and> d \<noteq> [] \<and> t \<noteq> []
              \<and> CHR ''@'' \<notin> set l \<and> CHR ''@'' \<notin> set d \<and> CHR ''@'' \<notin> set t))"
  unfolding isValidEmail_iff [symmetric]
  using Database_AddLicense_errors(2) [of f now db key p ex email on]
  by (simp add: Service_AddLicense_def)

theorem add_license_invalid_email_witness:
  "isValidLicenseKey ''ABCD-1234-EFGH-5678''
   \<and> snd (Service_AddLicense no_faults 100 empty_db ''ABCD-1234-EFGH-5678'' ''Demo'' ''a@b'' ''A B'' None)
     = Some ErrInvalidEmail
   \<and> \<not> (\<exists>l d t. ''a@b'' = l @ ''@'' @ d @ ''.'' @ t \<and> l \<noteq> [] \<and> d \<noteq> [] \<and> t \<noteq> []
              \<and> CHR ''@'' \<notin> set l \<and> CHR ''@'' \<notin> set d \<and> CHR ''@'' \<notin> set t)
   \<and> snd (Service_AddLicense no_faults 100 empty_db ''ABCD-1234-EFGH-5678'' ''Demo'' ''a@b.com'' ''A B'' None)
     \<noteq> Some ErrInvalidEmail
   \<and> (\<exists>l d t. ''a@b.com'' = l @ ''@'' @ d @ ''.'' @ t \<and> l \<noteq> [] \<and> d \<noteq> [] \<and> t \<noteq> []
              \<and> CHR ''@'' \<notin> set l \<and> CHR ''@'' \<notin> set d \<and> CHR ''@'' \<notin> set t)"
proof -
  have v: "isValidLicenseKey ''ABCD-1234-EFGH-5678''" by (simp add: eval_validators)
  have a: "snd (Service_AddLicense no_faults 100 empty_db ''ABCD-1234-EFGH-5678'' ''Demo'' ''a@b'' ''A B'' None)
     = Some ErrInvalidEmail"
    by (simp add: Service_AddLicense_def eval_validators)
  have b: "snd (Service_AddLicense no_faults 100 empty_db ''ABCD-1234-EFGH-5678'' ''Demo'' ''a@b.com'' ''A B'' None)
     \<noteq> Some ErrInvalidEmail"
    by (simp add: demo_add)
  note t1 = add_license_invalid_email [OF v, of no_faults 100 empty_db "''Demo''" "''a@b''" "''A B''" None]
  note t2 = add_license_invalid_email [OF v, of no_faults 100 empty_db "''Demo''" "''a@b.com''" "''A B''" None]
  have c: "\<not> (\<exists>l d t. ''a@b'' = l @ ''@'' @ d @ ''.'' @ t \<and> l \<noteq> [] \<and> d \<noteq> [] \<and> t \<noteq> []
              \<and> CHR ''@'' \<notin> set l \<and> CHR ''@'' \<notin> set d \<and> CHR ''@'' \<notin> set t)"
    using t1 a by blast
  have d: "\<exists>l d t. ''a@b.com'' = l @ ''@'' @ d @ ''.'' @ t \<and> l \<noteq> [] \<and> d \<noteq> [] \<and> t \<noteq> []
              \<and> CHR ''@'' \<notin> set l \<and> CHR ''@'' \<notin> set d \<and> CHR ''@'' \<notin> set t"
    using t2 b by blast
  show ?thesis
    using v a b c d by (intro conjI)
qed

text \<open>
  C8 as stated fails: \<^verbatim>\<open>a@.com\<close> has exactly one \<^verbatim>\<open>@\<close> and a \<^verbatim>\<open>.\<close> after it,
  and is refused.
\<close>

theorem permissive_email_counterexample:
  "isValidLicenseKey ''ABCD-1234-EFGH-5678''
   \<and> permissive_shape ''a@.com''
   \<and> snd (Service_AddLicense no_faults 100 empty_db ''ABCD-1234-EFGH-5678'' ''Demo'' ''a@.com'' ''A B'' None)
     = Some ErrInvalidEmail"
  by (simp add: Service_AddLicense_def eval_validators permissive_shape_def)

section \<open>Tokens\<close>

lemma NewNumericDate_add_day: "NewNumericDate (t + 24 * Hour) = NewNumericDate t + 24 * Hour"
proof -
  have h: "24 * Hour = (24 * 3600) * Second" by (simp add: Hour_def)
  have "(t + 24 * Hour) mod Second = t mod Second"
    unfolding h by (rule mod_mult_self1)
  then show ?thesis by (simp add: NewNumericDate_def)
qed

lemma generate_claims:
  "GenerateJWT now1 now2 userID =
     JWS ''HS256''
       \<lparr>UserID = userID, claims_ExpiresAt = Some (NewNumericDate now1 + 24 * Hour),
        IssuedAt = Some (NewNumericDate now2)\<rparr>
       (Mac jwtKey ''HS256''
         \<lparr>UserID = userID, claims_ExpiresAt = Some (NewNumericDate now1 + 24 * Hour),
          IssuedAt = Some (NewNumericDate now2)\<rparr>)"
  by (simp add: GenerateJWT_def Let_def NewNumericDate_add_day)

lemma parse_bad_signature:
  "sg \<noteq> Mac jwtKey alg c \<Longrightarrow>
     ParseJWT now (JWS alg c sg) = (None, Some ErrTokenSignatureInvalid)
   \<or> ParseJWT now (JWS alg c sg) = (None, Some ErrTokenUnverifiable)"
  by (simp add: ParseJWT_def ParseWithClaims_def)

lemma parse_expired:
  "claims_ExpiresAt c = Some e \<Longrightarrow> e \<le> now \<Longrightarrow>
     fst (ParseJWT now (JWS alg c sg)) = None \<and> snd (ParseJWT now (JWS alg c sg)) \<noteq> None"
  by (simp add: ParseJWT_def ParseWithClaims_def)

lemma parse_expired_signed:
  "claims_ExpiresAt c = Some e \<Longrightarrow> e \<le> now \<Longrightarrow> alg \<in> set hmac_methods \<Longrightarrow>
     ParseJWT now (JWS alg c (Mac jwtKey alg c)) = (None, Some ErrTokenExpired)"
  by (simp add: ParseJWT_def ParseWithClaims_def)

lemma parse_error_passed_on:
  "snd (ParseJWT now tok) = snd (snd (ParseWithClaims jwtKey now tok))"
  by (auto simp: ParseJWT_def ParseWithClaims_def split: jws.splits option.splits)

lemma parse_fresh:
  "now < NewNumericDate now1 + 24 * Hour \<Longrightarrow>
     \<exists>c. ParseJWT now (GenerateJWT now1 now2 userID) = (Some c, None) \<and> UserID c = userID"
  by (simp add: generate_claims ParseJWT_def ParseWithClaims_def hmac_methods_def)

lemma middleware_rejects:
  "snd (ParseJWT now tok) \<noteq> None \<Longrightarrow> JWTAuthMiddleware now (Bearer tok) = Responded 401 invalid_token"
  by (auto simp: JWTAuthMiddleware_def split: prod.splits option.splits)

text \<open>
  C9, amended. \<^verbatim>\<open>GenerateJWT\<close> signs, with the process-wide secret, claims that
  carry the account identifier and an expiry 24 hours after the clock reading
  at issuance (at the one-second precision of the token's dates), and
  \<^verbatim>\<open>ParseJWT\<close> gives these claims back until that expiry. \<^verbatim>\<open>ParseJWT\<close> returns
  no claims for every token whose signature is not the one the secret gives,
  and for every token whose expiry has passed. It hands the library's error on
  unchanged: a signature (or unknown-method) error in the first case, the
  expiry error in the second when the signature is right. It is
  \<^verbatim>\<open>JWTAuthMiddleware\<close> that answers every such error with one and the same
  401 response.
\<close>

theorem token_issue_and_verify:
  "GenerateJWT now1 now2 userID =
     JWS ''HS256''
       \<lparr>UserID = userID, claims_ExpiresAt = Some (NewNumericDate now1 + 24 * Hour),
        IssuedAt = Some (NewNumericDate now2)\<rparr>
       (Mac jwtKey ''HS256''
         \<lparr>UserID = userID, claims_ExpiresAt = Some (NewNumericDate now1 + 24 * Hour),
          IssuedAt = Some (NewNumericDate now2)\<rparr>)
   \<and> (now < NewNumericDate now1 + 24 * Hour \<longrightarrow>
        (\<exists>c. ParseJWT now (GenerateJWT now1 now2 userID) = (Some c, None) \<and> UserID c = userID))
   \<and> (sg \<noteq> Mac jwtKey alg c \<longrightarrow>
        ParseJWT now (JWS alg c sg) = (None, Some ErrTokenSignatureInvalid)
      \<or> ParseJWT now (JWS alg c sg) = (None, Some ErrTokenUnverifiable))
   \<and> (\<forall>e. claims_ExpiresAt c = Some e \<and> e \<le> now \<longrightarrow>
        fst (ParseJWT now (JWS alg c sg)) = None \<and> snd (ParseJWT now (JWS alg c sg)) \<noteq> None
        \<and> (alg \<in> set hmac_methods \<longrightarrow>
             ParseJWT now (JWS alg c (Mac jwtKey alg c)) = (None, Some ErrTokenExpired)))
   \<and> snd (ParseJWT now tok) = snd (snd (ParseWithClaims jwtKey now tok))
   \<and> (snd (ParseJWT now tok) \<noteq> None \<longrightarrow>
        JWTAuthMiddleware now (Bearer tok) = Responded 401 invalid_token)"
  apply (intro conjI impI allI)
  subgoal by (rule generate_claims)
  subgoal by (rule parse_fresh)
  subgoal by (rule parse_bad_signature)
  subgoal by (simp add: parse_expired)
  subgoal by (simp add: parse_expired)
  subgoal by (simp add: parse_expired_signed)
  subgoal by (rule parse_error_passed_on)
  subgoal by (rule middleware_rejects)
  done

text \<open>
  C9 as stated fails for \<^verbatim>\<open>ParseJWT\<close>: a forged token and an expired token are
  rejected with different errors.
\<close>

theorem parse_errors_differ_counterexample:
  "ParseJWT Hour forged_token = (None, Some ErrTokenSignatureInvalid)
   \<and> ParseJWT (25 * Hour) (GenerateJWT 0 0 7) = (None, Some ErrTokenExpired)
   \<and> snd (ParseJWT Hour forged_token) \<noteq> snd (ParseJWT (25 * Hour) (GenerateJWT 0 0 7))"
  by (simp add: forged_token_def generate_claims ParseJWT_def ParseWithClaims_def hmac_methods_def
      other_methods_def jwtKey_def NewNumericDate_def Hour_def Second_def)

theorem token_issue_and_verify_witness:
  "ParseJWT Hour (GenerateJWT 0 0 7)
     = (Some \<lparr>UserID = 7, claims_ExpiresAt = Some (24 * Hour), IssuedAt = Some 0\<rparr>, None)
   \<and> ParseJWT Hour forged_token = (None, Some ErrTokenSignatureInvalid)
   \<and> JWTAuthMiddleware Hour (Bearer forged_token) = Responded 401 invalid_token
   \<and> ParseJWT (25 * Hour) (GenerateJWT 0 0 7) = (None, Some ErrTokenExpired)
   \<and> JWTAuthMiddleware (25 * Hour) (Bearer (GenerateJWT 0 0 7)) = Responded 401 invalid_token"
proof -
  have g: "GenerateJWT 0 0 7 = JWS ''HS256''
       \<lparr>UserID = 7, claims_ExpiresAt = Some (24 * Hour), IssuedAt = Some 0\<rparr>
       (Mac jwtKey ''HS256'' \<lparr>UserID = 7, claims_ExpiresAt = Some (24 * Hour), IssuedAt = Some 0\<rparr>)"
    using token_issue_and_verify [of 0 0 7] by (simp add: NewNumericDate_def)
  have a: "ParseJWT Hour (GenerateJWT 0 0 7)
     = (Some \<lparr>UserID = 7, claims_ExpiresAt = Some (24 * Hour), IssuedAt = Some 0\<rparr>, None)"
    unfolding g by (simp add: ParseJWT_def ParseWithClaims_def hmac_methods_def Hour_def Second_def)
  have b: "ParseJWT Hour forged_token = (None, Some ErrTokenSignatureInvalid)"
    by (simp add: forged_token_def ParseJWT_def ParseWithClaims_def hmac_methods_def jwtKey_def)
  have c: "ParseJWT (25 * Hour) (GenerateJWT 0 0 7) = (None, Some ErrTokenExpired)"
    unfolding g by (simp add: ParseJWT_def ParseWithClaims_def hmac_methods_def Hour_def Second_def)
  have b': "snd (ParseJWT Hour forged_token) \<noteq> None" using b by simp
  have c': "snd (ParseJWT (25 * Hour) (GenerateJWT 0 0 7)) \<noteq> None" using c by simp
  have d: "JWTAuthMiddleware Hour (Bearer forged_token) = Responded 401 invalid_token"
    using b' token_issue_and_verify [of 0 0 7 Hour "Junk []" "[]" _ forged_token] by blast
  have e: "JWTAuthMiddleware (25 * Hour) (Bearer (GenerateJWT 0 0 7)) = Responded 401 invalid_token"
    using c' token_issue_and_verify [of 0 0 7 "25 * Hour" "Junk []" "[]" _ "GenerateJWT 0 0 7"] by blast
  show ?thesis using a b c d e by (intro conjI)
qed

section \<open>Generated keys\<close>

text \<open>Whatever the draws, a generated key passes the key validation.\<close>

lemma chars_nonempty: "0 < length chars"
  by (simp add: chars_def)

lemma key_group_group4: "group4 (key_group draw i)"
  by (auto simp: group4_def key_group_def list_all_iff
      intro!: nth_mem mod_less_divisor chars_nonempty)

lemma generated_key_valid: "isValidLicenseKey (GenerateLicenseKey draw)"
  unfolding isValidLicenseKey_iff GenerateLicenseKey_def
  using key_group_group4 by blast

end
